theory Spec2Isabelle
  imports Main "HOL-Library.Multiset"
begin

section \<open>Changelog generation of esphomerelease (changelog.py)\<close>

text \<open>
  A shallow embedding of \<^verbatim>\<open>src/esphomerelease/changelog.py\<close>: the per-record
  eligibility filter (\<^verbatim>\<open>job\<close>), the line formatter, the classification loop and the
  assembly of the document in \<^verbatim>\<open>generate\<close>. Python strings are \<open>string\<close>, Python
  integers are \<open>int\<close>, the label list of a pull request is a \<open>string list\<close> in the order
  the source iterates it, and the \<^verbatim>\<open>defaultdict(list)\<close> of label groups is an
  association list in insertion order (the order \<^verbatim>\<open>items()\<close> yields).
\<close>

subsection \<open>Data model\<close>

text \<open>
  Modelled from the spec: the class \<^verbatim>\<open>Version\<close> of \<^verbatim>\<open>model.py\<close> is not among the
  sources. The spec gives it as \<open>(major, minor, patch, beta: bool)\<close>, ordered
  lexicographically over \<open>(major, minor, patch)\<close>, a non-beta version being greater than
  a beta version with the same triple.
\<close>

record version =
  major :: int
  minor :: int
  patch :: int
  beta :: bool

definition version_lt :: "version \<Rightarrow> version \<Rightarrow> bool" where
  \<comment> \<open>Modelled from the spec: the strict order of \<^verbatim>\<open>Version\<close>.\<close>
  "version_lt a b =
     (major a < major b \<or>
      (major a = major b \<and>
        (minor a < minor b \<or>
         (minor a = minor b \<and>
           (patch a < patch b \<or>
            (patch a = patch b \<and> beta a \<and> \<not> beta b))))))"

definition version_le :: "version \<Rightarrow> version \<Rightarrow> bool" where
  \<comment> \<open>Modelled from the spec: \<^verbatim>\<open>a <= b\<close> on \<^verbatim>\<open>Version\<close>.\<close>
  "version_le a b =
     (version_lt a b \<or>
      (major a = major b \<and> minor a = minor b \<and> patch a = patch b \<and> beta a = beta b))"

definition version_gt :: "version \<Rightarrow> version \<Rightarrow> bool" where
  \<comment> \<open>Modelled from the spec: \<^verbatim>\<open>a > b\<close> on \<^verbatim>\<open>Version\<close>.\<close>
  "version_gt a b = version_lt b a"

text \<open>
  What \<^verbatim>\<open>generate\<close> takes from outside the file: \<^verbatim>\<open>Version.parse\<close> (\<open>None\<close> is the
  \<^verbatim>\<open>ValueError\<close> of a text that is not a version), \<^verbatim>\<open>str\<close> of a version, and the
  two parts of \<^verbatim>\<open>datetime.now()\<close> the release heading prints.
\<close>

record env =
  parse :: "string \<Rightarrow> version option"
  version_str :: "version \<Rightarrow> string"
  now_month_name :: string
  now_day :: int

record gh_user =
  login :: string
  user_html_url :: string

text \<open>
  A pull request as \<^verbatim>\<open>github3\<close> hands it over. \<open>label_names\<close> is
  \<^verbatim>\<open>[label["name"] for label in pr.labels]\<close>; \<open>milestone\<close> is the title of the
  milestone, \<open>None\<close> when the pull request has no milestone.
\<close>

record pull_request =
  number :: int
  title :: string
  html_url :: string
  user :: gh_user
  label_names :: "string list"
  milestone :: "string option"
  merged_at :: int

record 'b project =
  shortname :: string
  prs_between :: "'b \<Rightarrow> 'b \<Rightarrow> int list"
  get_pr :: "int \<Rightarrow> pull_request"

datatype error = KeyError int

type_synonym label_groups = "(string \<times> string list) list"

subsection \<open>Constants\<close>

definition LABEL_HEADERS :: "(string \<times> string) list" where
  "LABEL_HEADERS =
     [(''new-feature'', ''New Features''),
      (''new-component'', ''New Components''),
      (''new-platform'', ''New Platforms''),
      (''breaking-change'', ''Breaking Changes''),
      (''cherry-picked'', ''Beta Changes''),
      (''notable-change'', ''Notable Changes'')]"

definition LINE_LABELS :: "string list" where
  "LINE_LABELS =
     [''new-feature'', ''new-component'', ''new-platform'', ''breaking-change'',
      ''notable-change'']"

definition DEPENDENCY_LABELS :: "string list" where
  "DEPENDENCY_LABELS = [''dependencies'']"

subsection \<open>Strings\<close>

definition digit_char :: "nat \<Rightarrow> char" where
  "digit_char d =
     (if d = 0 then CHR ''0'' else if d = 1 then CHR ''1'' else if d = 2 then CHR ''2''
      else if d = 3 then CHR ''3'' else if d = 4 then CHR ''4'' else if d = 5 then CHR ''5''
      else if d = 6 then CHR ''6'' else if d = 7 then CHR ''7'' else if d = 8 then CHR ''8''
      else CHR ''9'')"

function str_nat :: "nat \<Rightarrow> string" where
  "str_nat n = (if n < 10 then [digit_char n] else str_nat (n div 10) @ [digit_char (n mod 10)])"
  by pat_completeness auto
termination
  by (relation "measure (\<lambda>n. n)") auto

declare str_nat.simps [simp del]

definition str_int :: "int \<Rightarrow> string" where
  \<comment> \<open>Python's \<^verbatim>\<open>str\<close> of an integer, as an f-string prints it.\<close>
  "str_int i = (if i < 0 then ''-'' @ str_nat (nat (- i)) else str_nat (nat i))"

definition str_repeat :: "int \<Rightarrow> string \<Rightarrow> string" where
  \<comment> \<open>\<^verbatim>\<open>n * s\<close>: the empty string when \<open>n \<le> 0\<close>.\<close>
  "str_repeat n s = concat (replicate (nat n) s)"

fun join :: "string \<Rightarrow> string list \<Rightarrow> string" where
  "join sep [] = []"
| "join sep [x] = x"
| "join sep (x # y # ys) = x @ sep @ join sep (y # ys)"

subsection \<open>Headings and lines\<close>

definition heading_prefix :: "int \<Rightarrow> string option" where
  "heading_prefix level =
     (if level = 1 then Some ''=''
      else if level = 2 then Some ''-''
      else if level = 3 then Some ''^''
      else None)"

definition format_heading :: "string \<Rightarrow> bool \<Rightarrow> int \<Rightarrow> error + string" where
  "format_heading title' markdown level =
     (if markdown then
        (let c = str_repeat level ''#'' in Inr (c @ '' '' @ title' @ ''\<newline>''))
      else
        (case heading_prefix level of
           None \<Rightarrow> Inl (KeyError level)
         | Some prefix \<Rightarrow>
             Inr (title' @ ''\<newline>'' @ str_repeat (int (length title')) prefix @ ''\<newline>'')))"

definition format_line :: "'b project \<Rightarrow> pull_request \<Rightarrow> bool \<Rightarrow> bool \<Rightarrow> string" where
  "format_line project pr markdown include_author =
     (let username = login (user pr);
          pr_link =
            (if markdown then
               ''['' @ shortname project @ ''#'' @ str_int (number pr) @ '']('' @ html_url pr @ '')''
             else '':'' @ shortname project @ ''pr:`'' @ str_int (number pr) @ ''`'');
          user_link =
            (if markdown then ''[@'' @ username @ '']('' @ user_html_url (user pr) @ '')''
             else '':ghuser:`'' @ username @ ''`'');
          line = ''- '' @ title pr @ '' '' @ pr_link
      in if include_author then line @ '' by '' @ user_link else line)"

subsection \<open>The eligibility filter\<close>

text \<open>
  \<^verbatim>\<open>job\<close> returns what it printed and, when it appended to \<^verbatim>\<open>lines\<close>, the appended
  pair. \<^verbatim>\<open>pr.milestone["title"]\<close> on a missing milestone is the \<^verbatim>\<open>TypeError\<close> of
  subscripting \<^verbatim>\<open>None\<close>. \<^verbatim>\<open>labels.remove\<close> removes the first occurrence.

  The source compares \<^verbatim>\<open>pick_version > head_version\<close> also when \<^verbatim>\<open>head_version\<close> is
  \<^verbatim>\<open>None\<close> (it is reached only when \<^verbatim>\<open>pick_version <= base_version\<close> is false). The
  order of \<^verbatim>\<open>Version\<close> is an order on versions, so that comparison is taken as the
  \<^verbatim>\<open>TypeError\<close> Python raises for an ordering between unrelated types, which the
  \<^verbatim>\<open>except TypeError\<close> clause of the source catches. No theorem below on a present
  head version depends on this branch.

  The jobs are run by \<^verbatim>\<open>process_asynchronously\<close>, which may append to \<^verbatim>\<open>lines\<close> in
  another order than the order of the job list; \<open>load_prs\<close> is the list in job order, and
  everything after it (\<open>render\<close>) is defined for any list of collected lines. The
  progress messages of \<^verbatim>\<open>gprint\<close> are not part of the returned document and are left
  out; the diagnostics of \<^verbatim>\<open>print\<close> are the first component of \<open>job\<close>.
\<close>

definition job ::
  "env \<Rightarrow> version \<Rightarrow> version option \<Rightarrow> pull_request \<Rightarrow>
     string list \<times> (pull_request \<times> string list) option" where
  "job e base_version head_version pr =
     (let labels = label_names pr;
          no_milestone = ''PR '' @ str_int (number pr) @ '' has no milestone''
      in
      if ''reverted'' \<in> set labels then ([], None)
      else if ''cherry-picked'' \<in> set labels then
        (case milestone pr of
           None \<Rightarrow> ([no_milestone], Some (pr, labels))
         | Some milestone' \<Rightarrow>
             (case parse e milestone' of
                None \<Rightarrow>
                  ([''Could not parse milestone '' @ milestone'],
                   Some (pr, remove1 ''cherry-picked'' labels))
              | Some pick_version \<Rightarrow>
                  if version_le pick_version base_version then ([], None)
                  else
                    (case head_version of
                       None \<Rightarrow> ([no_milestone], Some (pr, labels))
                     | Some hv \<Rightarrow>
                         if version_gt pick_version hv then ([], None)
                         else ([], Some (pr, labels)))))
      else ([], Some (pr, labels)))"

definition load_prs ::
  "env \<Rightarrow> version \<Rightarrow> version option \<Rightarrow> pull_request list \<Rightarrow>
     (pull_request \<times> string list) list" where
  \<comment> \<open>The list \<^verbatim>\<open>lines\<close> after all jobs ran, in the order of the jobs.\<close>
  "load_prs e base_version head_version prs =
     List.map_filter (\<lambda>pr. snd (job e base_version head_version pr)) prs"

definition printed ::
  "env \<Rightarrow> version \<Rightarrow> version option \<Rightarrow> pull_request list \<Rightarrow> string list" where
  \<comment> \<open>What the jobs printed, in the order of the jobs.\<close>
  "printed e base_version head_version prs =
     concat (map (\<lambda>pr. fst (job e base_version head_version pr)) prs)"

subsection \<open>Classification\<close>

definition line_msg ::
  "'b project \<Rightarrow> bool \<Rightarrow> bool \<Rightarrow> pull_request \<times> string list \<Rightarrow> string" where
  "line_msg project markdown include_author entry =
     (let parts =
        [format_line project (fst entry) markdown include_author] @
        map (\<lambda>label. ''('' @ label @ '')'')
          (filter (\<lambda>label. label \<in> set LINE_LABELS) (snd entry))
      in join '' '' parts)"

definition has_dependency_label :: "string list \<Rightarrow> bool" where
  \<comment> \<open>\<^verbatim>\<open>any(label in labels for label in DEPENDENCY_LABELS)\<close>\<close>
  "has_dependency_label labels = list_ex (\<lambda>label. label \<in> set labels) DEPENDENCY_LABELS"

fun group_append :: "string \<Rightarrow> string \<Rightarrow> label_groups \<Rightarrow> label_groups" where
  "group_append label msg [] = [(label, [msg])]"
| "group_append label msg ((k, v) # rest) =
     (if k = label then (k, v @ [msg]) # rest else (k, v) # group_append label msg rest)"

definition group_lookup :: "label_groups \<Rightarrow> string \<Rightarrow> string list" where
  \<comment> \<open>\<^verbatim>\<open>label_groups[label]\<close>: the empty list for a label never appended to. The entry
      the \<^verbatim>\<open>defaultdict\<close> adds on such a read holds no line.\<close>
  "group_lookup groups label = (case map_of groups label of None \<Rightarrow> [] | Some prs \<Rightarrow> prs)"

fun serialize ::
  "'b project \<Rightarrow> bool \<Rightarrow> bool \<Rightarrow> bool \<Rightarrow> (pull_request \<times> string list) list \<Rightarrow>
     string list \<times> label_groups \<Rightarrow> string list \<times> label_groups" where
  "serialize project markdown with_sections include_author [] acc = acc"
| "serialize project markdown with_sections include_author (entry # rest) (changes, groups) =
     (let msg = line_msg project markdown include_author entry;
          changes' =
            (if \<not> with_sections \<or> \<not> has_dependency_label (snd entry)
             then changes @ [msg] else changes);
          groups' = fold (\<lambda>label g. group_append label msg g) (snd entry) groups
      in serialize project markdown with_sections include_author rest (changes', groups'))"

subsection \<open>Assembly\<close>

fun header_groups ::
  "bool \<Rightarrow> bool \<Rightarrow> label_groups \<Rightarrow> (string \<times> string) list \<Rightarrow> error + string list" where
  "header_groups prerelease markdown groups [] = Inr []"
| "header_groups prerelease markdown groups ((label, title') # rest) =
     (if \<not> prerelease \<and> title' = ''Beta Changes'' then
        header_groups prerelease markdown groups rest
      else
        (let prs = group_lookup groups label in
         if prs = [] then header_groups prerelease markdown groups rest
         else
           (case format_heading title' markdown 3 of
              Inl err \<Rightarrow> Inl err
            | Inr heading \<Rightarrow>
                (case header_groups prerelease markdown groups rest of
                   Inl err \<Rightarrow> Inl err
                 | Inr later \<Rightarrow> Inr ([heading] @ prs @ [''''] @ later)))))"

definition full_sections :: "bool \<Rightarrow> bool \<Rightarrow> label_groups \<Rightarrow> error + string list" where
  \<comment> \<open>The \<^verbatim>\<open>else\<close> branch of the heading decision.\<close>
  "full_sections prerelease markdown groups =
     (case format_heading ''Full list of changes'' markdown 2 of
        Inl err \<Rightarrow> Inl err
      | Inr heading \<Rightarrow>
          (case header_groups prerelease markdown groups LABEL_HEADERS of
             Inl err \<Rightarrow> Inl err
           | Inr sections \<Rightarrow>
               (case format_heading ''All changes'' markdown 3 of
                  Inl err \<Rightarrow> Inl err
                | Inr heading' \<Rightarrow> Inr ([heading] @ sections @ [heading']))))"

definition patch_heading :: "env \<Rightarrow> version \<Rightarrow> bool \<Rightarrow> error + string list" where
  \<comment> \<open>The branch of a non-beta patch release.\<close>
  "patch_heading e hv markdown =
     (if \<not> markdown then
        (case format_heading
                (''Release '' @ version_str e hv @ '' - '' @ now_month_name e @ '' '' @
                 str_int (now_day e)) False 2 of
           Inl err \<Rightarrow> Inl err
         | Inr heading \<Rightarrow> Inr [heading])
      else Inr [])"

definition headings ::
  "env \<Rightarrow> version option \<Rightarrow> bool \<Rightarrow> bool \<Rightarrow> label_groups \<Rightarrow> error + string list" where
  "headings e head_version prerelease markdown groups =
     (case head_version of
        None \<Rightarrow> full_sections prerelease markdown groups
      | Some hv \<Rightarrow>
          if patch hv \<noteq> 0 \<and> \<not> beta hv then patch_heading e hv markdown
          else full_sections prerelease markdown groups)"

definition collapse_changes :: "bool \<Rightarrow> string list \<Rightarrow> string list" where
  "collapse_changes markdown changes =
     (if markdown then
        [''<details>'', ''<summary>Show</summary>'', ''''] @ changes @ [''</details>'']
      else
        [''.. collapse:: Show'', ''    :open:'', ''''] @
        map (\<lambda>pr_line. ''    '' @ pr_line) changes)"

definition depdendency_prs :: "label_groups \<Rightarrow> string list" where
  "depdendency_prs groups =
     concat (map snd (filter (\<lambda>item. fst item \<in> set DEPENDENCY_LABELS) groups))"

definition dependency_block :: "bool \<Rightarrow> label_groups \<Rightarrow> error + string list" where
  "dependency_block markdown groups =
     (if depdendency_prs groups \<noteq> [] then
        (case format_heading ''Dependency Changes'' markdown 3 of
           Inl err \<Rightarrow> Inl err
         | Inr heading \<Rightarrow>
             Inr ([heading] @
               (if markdown then
                  [''<details>'', ''<summary>Show</summary>'', ''''] @
                  depdendency_prs groups @ [''</details>'']
                else
                  [''.. collapse:: Show'', ''''] @
                  map (\<lambda>pr_line. ''    '' @ pr_line) (depdendency_prs groups) @ [''''])))
      else Inr [])"

definition assemble ::
  "env \<Rightarrow> version option \<Rightarrow> bool \<Rightarrow> bool \<Rightarrow> bool \<Rightarrow> string list \<Rightarrow> label_groups \<Rightarrow>
     error + string list" where
  \<comment> \<open>The list \<^verbatim>\<open>outp\<close> from the unified list and the label groups.\<close>
  "assemble e head_version prerelease markdown with_sections changes groups =
     (if with_sections then
        (case headings e head_version prerelease markdown groups of
           Inl err \<Rightarrow> Inl err
         | Inr head_blocks \<Rightarrow>
             (case dependency_block markdown groups of
                Inl err \<Rightarrow> Inl err
              | Inr dep_blocks \<Rightarrow>
                  Inr (head_blocks @ collapse_changes markdown changes @ [''''] @ dep_blocks)))
      else Inr (changes @ ['''']))"

definition sorted_lines ::
  "(pull_request \<times> string list) list \<Rightarrow> (pull_request \<times> string list) list" where
  \<comment> \<open>\<^verbatim>\<open>lines.sort(key=lambda x: x[0].merged_at)\<close>: a stable sort.\<close>
  "sorted_lines lines = sort_key (\<lambda>x. merged_at (fst x)) lines"

definition classify ::
  "'b project \<Rightarrow> bool \<Rightarrow> bool \<Rightarrow> bool \<Rightarrow> (pull_request \<times> string list) list \<Rightarrow>
     string list \<times> label_groups" where
  \<comment> \<open>The unified list \<^verbatim>\<open>changes\<close> and \<^verbatim>\<open>label_groups\<close> after the loop over the
      sorted lines.\<close>
  "classify project markdown with_sections include_author lines =
     serialize project markdown with_sections include_author (sorted_lines lines) ([], [])"

definition render ::
  "env \<Rightarrow> 'b project \<Rightarrow> version option \<Rightarrow> bool \<Rightarrow> bool \<Rightarrow> bool \<Rightarrow> bool \<Rightarrow>
     (pull_request \<times> string list) list \<Rightarrow> error + string list" where
  \<comment> \<open>\<^verbatim>\<open>outp\<close> from the collected \<^verbatim>\<open>lines\<close>, in whatever order the jobs appended.\<close>
  "render e project head_version prerelease markdown with_sections include_author lines =
     (let (changes, groups) = classify project markdown with_sections include_author lines
      in assemble e head_version prerelease markdown with_sections changes groups)"

definition generate_outp ::
  "env \<Rightarrow> 'b project \<Rightarrow> 'b \<Rightarrow> version \<Rightarrow> 'b \<Rightarrow> version option \<Rightarrow> bool \<Rightarrow> bool \<Rightarrow> bool \<Rightarrow>
     bool \<Rightarrow> error + string list" where
  "generate_outp e project base base_version head head_version prerelease markdown
     with_sections include_author =
     (let list' = prs_between project base head;
          lines = load_prs e base_version head_version (map (get_pr project) list')
      in render e project head_version prerelease markdown with_sections include_author lines)"

definition generate ::
  "env \<Rightarrow> 'b project \<Rightarrow> 'b \<Rightarrow> version \<Rightarrow> 'b \<Rightarrow> version option \<Rightarrow> bool \<Rightarrow> bool \<Rightarrow> bool \<Rightarrow>
     bool \<Rightarrow> error + string" where
  "generate e project base base_version head head_version prerelease markdown
     with_sections include_author =
     (case generate_outp e project base base_version head head_version prerelease markdown
             with_sections include_author of
        Inl err \<Rightarrow> Inl err
      | Inr outp \<Rightarrow> Inr (join ''\<newline>'' outp))"

subsection \<open>Example data\<close>

text \<open>
  Concrete inputs on which the theorems below are instantiated: a parser that knows four
  milestone texts, a printer of versions, and pull requests that differ in number,
  labels, milestone and merge time.
\<close>

definition example_version :: "int \<Rightarrow> int \<Rightarrow> int \<Rightarrow> bool \<Rightarrow> version" where
  "example_version a b c pre = \<lparr>major = a, minor = b, patch = c, beta = pre\<rparr>"

definition example_parse :: "string \<Rightarrow> version option" where
  "example_parse s =
     (if s = ''2024.1.0'' then Some (example_version 2024 1 0 False)
      else if s = ''2024.3.0'' then Some (example_version 2024 3 0 False)
      else if s = ''2024.3.1'' then Some (example_version 2024 3 1 False)
      else if s = ''2024.4.0'' then Some (example_version 2024 4 0 False)
      else None)"

definition example_version_str :: "version \<Rightarrow> string" where
  "example_version_str v =
     str_int (major v) @ ''.'' @ str_int (minor v) @ ''.'' @ str_int (patch v) @
     (if beta v then ''b1'' else [])"

definition example_env :: env where
  "example_env =
     \<lparr>parse = example_parse, version_str = example_version_str,
      now_month_name = ''March'', now_day = 5\<rparr>"

definition example_user :: gh_user where
  "example_user = \<lparr>login = ''octo'', user_html_url = ''https://github.com/octo''\<rparr>"

definition example_pr :: "int \<Rightarrow> string list \<Rightarrow> string option \<Rightarrow> int \<Rightarrow> pull_request" where
  "example_pr n labels ms t =
     \<lparr>number = n, title = ''Fix'', html_url = ''url'', user = example_user,
      label_names = labels, milestone = ms, merged_at = t\<rparr>"

definition example_project :: "pull_request list \<Rightarrow> unit project" where
  "example_project prs =
     \<lparr>shortname = ''esphome'',
      prs_between = (\<lambda>base head. map number prs),
      get_pr = (\<lambda>n. case find (\<lambda>pr. number pr = n) prs of
                       Some pr \<Rightarrow> pr
                     | None \<Rightarrow> example_pr n [] None 0)\<rparr>"

definition example_prs :: "pull_request list" where
  "example_prs =
     [example_pr 1 [''new-feature'', ''dependencies''] None 20,
      example_pr 2 [] None 10]"

section \<open>Properties\<close>

subsection \<open>The rendered line\<close>

lemma join_Cons_map:
  "join sep (x # map f ls) = x @ concat (map (\<lambda>l. sep @ f l) ls)"
  by (induction ls arbitrary: x) auto

lemma line_msg_eq:
  "line_msg project markdown include_author (pr, labels) =
     format_line project pr markdown include_author @
     concat (map (\<lambda>label. '' ('' @ label @ '')'')
       (filter (\<lambda>label. label \<in> set LINE_LABELS) labels))"
  by (simp add: line_msg_def join_Cons_map)

lemma format_line_dash:
  "\<exists>r. format_line project pr markdown include_author = CHR ''-'' # r"
  by (simp add: format_line_def Let_def)

lemma line_msg_dash: "\<exists>r. line_msg project markdown include_author entry = CHR ''-'' # r"
proof -
  obtain r where "format_line project (fst entry) markdown include_author = CHR ''-'' # r"
    using format_line_dash by blast
  then show ?thesis
    using line_msg_eq [of project markdown include_author "fst entry" "snd entry"] by simp
qed

lemma str_nat_digit: "n < 10 \<Longrightarrow> str_nat n = [digit_char n]"
  by (simp add: str_nat.simps)

text \<open>
  C1 (as the code has it). The inline-annotation labels of a record are appended to its
  line as parenthetical tags in the order in which they stand in the record's own label
  list: the line is the formatted line followed by \<open>" (label)"\<close> for each label of the
  list that is in \<open>LINE_LABELS\<close>, in list order. So two label lists give the same line
  whenever their annotation labels, read in list order, are the same.
\<close>

theorem line_msg_tags_in_label_order:
  "line_msg project markdown include_author (pr, labels) =
     format_line project pr markdown include_author @
     concat (map (\<lambda>label. '' ('' @ label @ '')'')
       (filter (\<lambda>label. label \<in> set LINE_LABELS) labels))
   \<and> (\<forall>labels'.
        filter (\<lambda>label. label \<in> set LINE_LABELS) labels' =
        filter (\<lambda>label. label \<in> set LINE_LABELS) labels \<longrightarrow>
        line_msg project markdown include_author (pr, labels') =
        line_msg project markdown include_author (pr, labels))"
  by (simp add: line_msg_def join_Cons_map)

theorem line_msg_tags_in_label_order_witness:
  "filter (\<lambda>label. label \<in> set LINE_LABELS) [''bugfix'', ''new-feature'', ''breaking-change''] =
   filter (\<lambda>label. label \<in> set LINE_LABELS) [''new-feature'', ''breaking-change'', ''bugfix'']
   \<and> line_msg (example_project []) True True
        (example_pr 7 [''bugfix'', ''new-feature'', ''breaking-change''] None 0,
         [''bugfix'', ''new-feature'', ''breaking-change'']) =
      line_msg (example_project []) True True
        (example_pr 7 [''bugfix'', ''new-feature'', ''breaking-change''] None 0,
         [''new-feature'', ''breaking-change'', ''bugfix''])
   \<and> line_msg (example_project []) True True
        (example_pr 7 [''bugfix'', ''new-feature'', ''breaking-change''] None 0,
         [''bugfix'', ''new-feature'', ''breaking-change'']) =
      ''- Fix [esphome#7](url) by [@octo](https://github.com/octo) (new-feature) (breaking-change)''"
  using line_msg_tags_in_label_order [of "example_project []" True True
      "example_pr 7 [''bugfix'', ''new-feature'', ''breaking-change''] None 0"
      "[''new-feature'', ''breaking-change'', ''bugfix'']"]
  by (simp add: LINE_LABELS_def format_line_def example_project_def example_pr_def
      example_user_def str_int_def str_nat_digit digit_char_def)

text \<open>
  C1 as stated fails: a record whose label list holds \<open>breaking-change\<close> before
  \<open>new-feature\<close> is rendered with the tags in that order, which is not the order of
  \<open>LINE_LABELS\<close>, and the permuted label list gives another line.
\<close>

theorem line_msg_declared_order_counterexample:
  "line_msg (example_project []) True True
     (example_pr 7 [''breaking-change'', ''new-feature''] None 0,
      [''breaking-change'', ''new-feature'']) =
     ''- Fix [esphome#7](url) by [@octo](https://github.com/octo) (breaking-change) (new-feature)''
   \<and> line_msg (example_project []) True True
       (example_pr 7 [''breaking-change'', ''new-feature''] None 0,
        [''breaking-change'', ''new-feature'']) \<noteq>
     line_msg (example_project []) True True
       (example_pr 7 [''breaking-change'', ''new-feature''] None 0,
        [''new-feature'', ''breaking-change''])"
  by (simp add: line_msg_def LINE_LABELS_def format_line_def example_project_def
      example_pr_def example_user_def str_int_def str_nat_digit digit_char_def)



subsection \<open>The eligibility filter: cherry-picked records\<close>



lemma load_prs_append:
  "load_prs e bv hv (xs @ ys) = load_prs e bv hv xs @ load_prs e bv hv ys"
  by (simp add: load_prs_def map_filter_def)

lemma load_prs_Cons:
  "load_prs e bv hv (pr # rest) =
     (case snd (job e bv hv pr) of
        None \<Rightarrow> load_prs e bv hv rest
      | Some entry \<Rightarrow> entry # load_prs e bv hv rest)"
  by (simp add: load_prs_def map_filter_def split: option.splits)








subsection \<open>Classification\<close>

lemma group_lookup_append:
  "group_lookup (group_append k m g) l =
     (if l = k then group_lookup g l @ [m] else group_lookup g l)"
  by (induction k m g rule: group_append.induct) (auto simp: group_lookup_def)

lemma group_lookup_fold:
  "group_lookup (fold (\<lambda>label g. group_append label m g) labels g) l =
     group_lookup g l @ concat (map (\<lambda>label. if label = l then [m] else []) labels)"
  by (induction labels arbitrary: g) (auto simp: group_lookup_append)

lemma keys_group_append:
  "map fst (group_append k m g) = (if k \<in> fst ` set g then map fst g else map fst g @ [k])"
  by (induction k m g rule: group_append.induct) auto

lemma distinct_group_append:
  "distinct (map fst g) \<Longrightarrow> distinct (map fst (group_append k m g))"
  by (auto simp: keys_group_append)

lemma distinct_fold_group_append:
  "distinct (map fst g) \<Longrightarrow>
     distinct (map fst (fold (\<lambda>label g. group_append label m g) labels g))"
  by (induction labels arbitrary: g) (auto simp: distinct_group_append)

lemma serialize_changes:
  "fst (serialize project markdown with_sections include_author lines (changes, groups)) =
     changes @ map (line_msg project markdown include_author)
       (filter (\<lambda>entry. \<not> with_sections \<or> \<not> has_dependency_label (snd entry)) lines)"
  by (induction lines arbitrary: changes groups) (auto simp: Let_def)

lemma serialize_groups:
  "group_lookup
     (snd (serialize project markdown with_sections include_author lines (changes, groups))) l =
     group_lookup groups l @
     map (line_msg project markdown include_author)
       [entry. entry \<leftarrow> lines, label \<leftarrow> snd entry, label = l]"
proof (induction lines arbitrary: changes groups)
  case Nil
  then show ?case by simp
next
  case (Cons entry rest)
  have "concat (map (\<lambda>label. if label = l then [line_msg project markdown include_author entry] else [])
          (snd entry)) =
        map (line_msg project markdown include_author)
          (concat (map (\<lambda>label. if label = l then [entry] else []) (snd entry)))"
    by (induction "snd entry") (auto simp: map_concat comp_def if_distrib cong: if_cong)
  with Cons show ?case
    by (simp add: Let_def group_lookup_fold)
qed

lemma serialize_distinct:
  "distinct (map fst groups) \<Longrightarrow>
     distinct (map fst
       (snd (serialize project markdown with_sections include_author lines (changes, groups))))"
  by (induction lines arbitrary: changes groups)
     (auto simp: Let_def distinct_fold_group_append)

lemma depdendency_prs_lookup:
  "distinct (map fst groups) \<Longrightarrow> depdendency_prs groups = group_lookup groups ''dependencies''"
proof (induction groups)
  case Nil
  then show ?case by (simp add: depdendency_prs_def group_lookup_def)
next
  case (Cons item rest)
  show ?case
  proof (cases "fst item = ''dependencies''")
    case True
    with Cons.prems have "\<forall>x\<in>set rest. fst x \<noteq> ''dependencies''" by force
    then have "filter (\<lambda>item. fst item \<in> set DEPENDENCY_LABELS) rest = []"
      by (auto simp: DEPENDENCY_LABELS_def filter_empty_conv)
    with True show ?thesis
      by (cases item) (simp add: depdendency_prs_def group_lookup_def DEPENDENCY_LABELS_def)
  next
    case False
    with Cons show ?thesis
      by (cases item) (simp add: depdendency_prs_def group_lookup_def DEPENDENCY_LABELS_def)
  qed
qed

lemma classify_changes:
  "fst (classify project markdown with_sections include_author lines) =
     map (line_msg project markdown include_author)
       (filter (\<lambda>entry. \<not> with_sections \<or> \<not> has_dependency_label (snd entry))
         (sorted_lines lines))"
  by (simp add: classify_def serialize_changes)

lemma classify_groups:
  "group_lookup (snd (classify project markdown with_sections include_author lines)) l =
     map (line_msg project markdown include_author)
       [entry. entry \<leftarrow> sorted_lines lines, label \<leftarrow> snd entry, label = l]"
proof -
  have "group_lookup [] l = []" by (simp add: group_lookup_def)
  then show ?thesis by (simp add: classify_def serialize_groups)
qed

lemma classify_dependency_prs:
  "depdendency_prs (snd (classify project markdown with_sections include_author lines)) =
     map (line_msg project markdown include_author)
       [entry. entry \<leftarrow> sorted_lines lines, label \<leftarrow> snd entry, label = ''dependencies'']"
proof -
  have "distinct (map fst (snd (classify project markdown with_sections include_author lines)))"
    unfolding classify_def by (rule serialize_distinct) simp
  then show ?thesis
    by (simp add: depdendency_prs_lookup classify_groups)
qed

lemma sorted_sorted_lines: "sorted (map (\<lambda>entry. merged_at (fst entry)) (sorted_lines lines))"
  by (simp add: sorted_lines_def)

lemma sorted_map_filter: "sorted (map f xs) \<Longrightarrow> sorted (map f (filter P xs))"
  by (induction xs) auto

lemma sorted_map_same: "set ys \<subseteq> {x} \<Longrightarrow> sorted (map f ys)"
  by (induction ys) auto

lemma sorted_map_concat_sub:
  "sorted (map f xs) \<Longrightarrow> (\<And>x. set (g x) \<subseteq> {x}) \<Longrightarrow> sorted (map f (concat (map g xs)))"
proof (induction xs)
  case Nil
  then show ?case by simp
next
  case (Cons x xs)
  have s1: "sorted (map f (g x))"
    using Cons.prems(2) [of x] by (rule sorted_map_same)
  have s2: "sorted (map f (concat (map g xs)))"
    using Cons by simp
  have "\<forall>a\<in>set (g x). \<forall>b\<in>set (concat (map g xs)). f a \<le> f b"
    using Cons.prems by fastforce
  with s1 s2 show ?case
    by (simp add: sorted_append)
qed

lemma sorted_group_entries:
  "sorted (map (\<lambda>entry. merged_at (fst entry))
     [entry. entry \<leftarrow> sorted_lines lines, label \<leftarrow> snd entry, label = l])"
  by (rule sorted_map_concat_sub [OF sorted_sorted_lines]) auto

text \<open>
  C8. Whatever records were included and in whatever order they were appended, the loop
  runs over the lines sorted by \<open>merged_at\<close> (a permutation of the appended lines). The
  unified list is the rendering of the sorted lines it keeps, in that order, so it is
  ordered by \<open>merged_at\<close> ascending; the group of every label is the rendering of the
  sorted lines that carry the label, in that order (once per occurrence of the label in
  the record's label list), so it is ordered by \<open>merged_at\<close> too.
\<close>

theorem classification_keeps_merge_order:
  "mset (sorted_lines lines) = mset lines
   \<and> sorted (map (\<lambda>entry. merged_at (fst entry)) (sorted_lines lines))
   \<and> fst (classify project markdown with_sections include_author lines) =
       map (line_msg project markdown include_author)
         (filter (\<lambda>entry. \<not> with_sections \<or> \<not> has_dependency_label (snd entry))
           (sorted_lines lines))
   \<and> sorted (map (\<lambda>entry. merged_at (fst entry))
         (filter (\<lambda>entry. \<not> with_sections \<or> \<not> has_dependency_label (snd entry))
           (sorted_lines lines)))
   \<and> group_lookup (snd (classify project markdown with_sections include_author lines)) label =
       map (line_msg project markdown include_author)
         [entry. entry \<leftarrow> sorted_lines lines, l \<leftarrow> snd entry, l = label]
   \<and> sorted (map (\<lambda>entry. merged_at (fst entry))
         [entry. entry \<leftarrow> sorted_lines lines, l \<leftarrow> snd entry, l = label])"
proof -
  have "mset (sorted_lines lines) = mset lines"
    by (simp add: sorted_lines_def)
  moreover note sorted_sorted_lines [of lines]
  moreover note classify_changes [of project markdown with_sections include_author lines]
  moreover have "sorted (map (\<lambda>entry. merged_at (fst entry))
         (filter (\<lambda>entry. \<not> with_sections \<or> \<not> has_dependency_label (snd entry))
           (sorted_lines lines)))"
    by (rule sorted_map_filter [OF sorted_sorted_lines])
  moreover note classify_groups [of project markdown with_sections include_author lines label]
  moreover note sorted_group_entries [where lines = lines and l = label]
  ultimately show ?thesis by blast
qed

theorem classification_keeps_merge_order_witness:
  "map (\<lambda>entry. merged_at (fst entry))
     (sorted_lines
       [(example_pr 3 [''new-feature''] None 30, [''new-feature'']),
        (example_pr 1 [''new-feature'', ''dependencies''] None 10, [''new-feature'', ''dependencies'']),
        (example_pr 2 [] None 20, [])]) = [10, 20, 30]
   \<and> fst (classify (example_project []) False True False
       [(example_pr 3 [''new-feature''] None 30, [''new-feature'']),
        (example_pr 1 [''new-feature'', ''dependencies''] None 10, [''new-feature'', ''dependencies'']),
        (example_pr 2 [] None 20, [])]) =
      [''- Fix :esphomepr:`2`'', ''- Fix :esphomepr:`3` (new-feature)'']
   \<and> group_lookup (snd (classify (example_project []) False True False
       [(example_pr 3 [''new-feature''] None 30, [''new-feature'']),
        (example_pr 1 [''new-feature'', ''dependencies''] None 10, [''new-feature'', ''dependencies'']),
        (example_pr 2 [] None 20, [])])) ''new-feature'' =
      [''- Fix :esphomepr:`1` (new-feature)'', ''- Fix :esphomepr:`3` (new-feature)'']"
  using classification_keeps_merge_order [of
      "[(example_pr 3 [''new-feature''] None 30, [''new-feature'']),
        (example_pr 1 [''new-feature'', ''dependencies''] None 10, [''new-feature'', ''dependencies'']),
        (example_pr 2 [] None 20, [])]"
      "example_project []" False True False "''new-feature''"]
  by (simp add: sorted_lines_def example_pr_def example_project_def example_user_def
      has_dependency_label_def DEPENDENCY_LABELS_def line_msg_def LINE_LABELS_def
      format_line_def str_int_def str_nat_digit digit_char_def)

subsection \<open>Headings and blocks\<close>

lemma str_repeat_char: "str_repeat (int n) [c] = replicate n c"
proof -
  have "concat (replicate n [c]) = replicate n c" by (induction n) simp_all
  then show ?thesis by (simp add: str_repeat_def)
qed

lemma format_heading_md:
  "format_heading t True 2 = Inr (''## '' @ t @ ''\<newline>'')"
  "format_heading t True 3 = Inr (''### '' @ t @ ''\<newline>'')"
  by (simp_all add: format_heading_def str_repeat_def eval_nat_numeral)

lemma format_heading_rst:
  "format_heading t False 2 = Inr (t @ ''\<newline>'' @ replicate (length t) CHR ''-'' @ ''\<newline>'')"
  "format_heading t False 3 = Inr (t @ ''\<newline>'' @ replicate (length t) CHR ''^'' @ ''\<newline>'')"
  by (simp_all add: format_heading_def heading_prefix_def str_repeat_char)

lemma format_heading_ok:
  "\<exists>h. format_heading t markdown 2 = Inr h"
  "\<exists>h. format_heading t markdown 3 = Inr h"
  by (cases markdown; simp add: format_heading_md format_heading_rst)+

lemma header_groups_blocks:
  "\<exists>secs. header_groups prerelease markdown groups hs = Inr secs \<and>
     (\<forall>b\<in>set secs. b = [] \<or> (\<exists>l. b \<in> set (group_lookup groups l)) \<or>
        (\<exists>t\<in>snd ` set hs. format_heading t markdown 3 = Inr b))"
proof (induction hs)
  case Nil
  then show ?case by simp
next
  case (Cons h hs)
  obtain label t where h: "h = (label, t)" by (cases h)
  obtain secs where secs: "header_groups prerelease markdown groups hs = Inr secs"
    and blocks: "\<forall>b\<in>set secs. b = [] \<or> (\<exists>l. b \<in> set (group_lookup groups l)) \<or>
        (\<exists>t\<in>snd ` set hs. format_heading t markdown 3 = Inr b)"
    using Cons.IH by blast
  obtain hd3 where hd3: "format_heading t markdown 3 = Inr hd3"
    using format_heading_ok(2) by blast
  show ?case
  proof (cases "(\<not> prerelease \<and> t = ''Beta Changes'') \<or> group_lookup groups label = []")
    case True
    then have "header_groups prerelease markdown groups (h # hs) = Inr secs"
      using secs h by (auto simp: Let_def)
    with blocks show ?thesis by auto
  next
    case False
    then have "header_groups prerelease markdown groups (h # hs) =
        Inr ([hd3] @ group_lookup groups label @ [''''] @ secs)"
      using secs h hd3 by (auto simp: Let_def)
    moreover have "\<forall>b\<in>set ([hd3] @ group_lookup groups label @ [''''] @ secs).
        b = [] \<or> (\<exists>l. b \<in> set (group_lookup groups l)) \<or>
        (\<exists>t\<in>snd ` set (h # hs). format_heading t markdown 3 = Inr b)"
      using blocks hd3 h by auto
    ultimately show ?thesis by blast
  qed
qed

lemma classify_group_dash:
  "b \<in> set (group_lookup (snd (classify project markdown with_sections include_author lines)) l)
     \<Longrightarrow> \<exists>r. b = CHR ''-'' # r"
  using line_msg_dash by (fastforce simp: classify_groups)

lemma classify_changes_dash:
  "b \<in> set (fst (classify project markdown with_sections include_author lines))
     \<Longrightarrow> \<exists>r. b = CHR ''-'' # r"
  using line_msg_dash by (fastforce simp: classify_changes)

lemma classify_dependency_dash:
  "b \<in> set (depdendency_prs (snd (classify project markdown with_sections include_author lines)))
     \<Longrightarrow> \<exists>r. b = CHR ''-'' # r"
  using line_msg_dash by (fastforce simp: classify_dependency_prs)

subsection \<open>The assembled document\<close>

lemma has_dependency_label_iff: "has_dependency_label labels = (''dependencies'' \<in> set labels)"
  by (simp add: has_dependency_label_def DEPENDENCY_LABELS_def)

lemma render_eq:
  "render e project head_version prerelease markdown with_sections include_author lines =
     assemble e head_version prerelease markdown with_sections
       (fst (classify project markdown with_sections include_author lines))
       (snd (classify project markdown with_sections include_author lines))"
  by (simp add: render_def case_prod_unfold Let_def)

lemma dependency_block_eq:
  "\<exists>heading. format_heading ''Dependency Changes'' markdown 3 = Inr heading \<and>
     dependency_block markdown groups =
       Inr (if depdendency_prs groups \<noteq> [] then
              [heading] @
              (if markdown then
                 [''<details>'', ''<summary>Show</summary>'', ''''] @
                 depdendency_prs groups @ [''</details>'']
               else
                 [''.. collapse:: Show'', ''''] @
                 map (\<lambda>pr_line. ''    '' @ pr_line) (depdendency_prs groups) @ [''''])
            else [])"
proof -
  obtain heading where "format_heading ''Dependency Changes'' markdown 3 = Inr heading"
    using format_heading_ok(2) by blast
  then show ?thesis by (simp add: dependency_block_def)
qed

lemma dependency_entries_nonempty:
  "([entry. entry \<leftarrow> xs, label \<leftarrow> snd entry, label = l] \<noteq> []) =
     (\<exists>entry\<in>set xs. l \<in> set (snd entry))"
  by (induction xs) (auto simp: filter_empty_conv)

lemma classify_dependency_nonempty:
  "(depdendency_prs (snd (classify project markdown with_sections include_author lines)) \<noteq> []) =
     (\<exists>entry\<in>set lines. has_dependency_label (snd entry))"
proof -
  have "set (sorted_lines lines) = set lines" by (simp add: sorted_lines_def)
  then show ?thesis
    using dependency_entries_nonempty [where xs = "sorted_lines lines" and l = "''dependencies''"]
    by (simp add: classify_dependency_prs has_dependency_label_iff)
qed

lemma full_sections_eq:
  "\<exists>full secs allch.
     format_heading ''Full list of changes'' markdown 2 = Inr full \<and>
     header_groups prerelease markdown groups LABEL_HEADERS = Inr secs \<and>
     format_heading ''All changes'' markdown 3 = Inr allch \<and>
     full_sections prerelease markdown groups = Inr ([full] @ secs @ [allch])"
proof -
  obtain full where 1: "format_heading ''Full list of changes'' markdown 2 = Inr full"
    using format_heading_ok(1) by blast
  obtain secs where 2: "header_groups prerelease markdown groups LABEL_HEADERS = Inr secs"
    using header_groups_blocks by blast
  obtain allch where 3: "format_heading ''All changes'' markdown 3 = Inr allch"
    using format_heading_ok(2) by blast
  from 1 2 3 show ?thesis by (simp add: full_sections_def)
qed

lemma patch_heading_eq:
  "\<exists>release.
     format_heading (''Release '' @ version_str e hv @ '' - '' @ now_month_name e @ '' '' @
       str_int (now_day e)) False 2 = Inr release \<and>
     patch_heading e hv markdown = Inr (if markdown then [] else [release])"
proof -
  obtain release where "format_heading (''Release '' @ version_str e hv @ '' - '' @
      now_month_name e @ '' '' @ str_int (now_day e)) False 2 = Inr release"
    using format_heading_ok(1) by blast
  then show ?thesis by (simp add: patch_heading_def)
qed

lemma collapse_changes_blocks:
  assumes "b \<in> set (collapse_changes markdown changes)"
    and "\<forall>c\<in>set changes. \<exists>r. c = CHR ''-'' # r"
  shows "b = [] \<or> hd b \<in> set ''- <.''"
proof -
  have "\<forall>c\<in>set changes. hd c = CHR ''-''"
    using assms(2) by fastforce
  then show ?thesis
    using assms(1) by (auto simp: collapse_changes_def split: if_splits)
qed

lemma dependency_block_blocks:
  assumes "dependency_block markdown groups = Inr blocks"
    and "b \<in> set blocks"
    and "\<forall>c\<in>set (depdendency_prs groups). \<exists>r. c = CHR ''-'' # r"
  shows "format_heading ''Dependency Changes'' markdown 3 = Inr b \<or> b = [] \<or> hd b \<in> set ''- <.''"
proof -
  obtain heading where h: "format_heading ''Dependency Changes'' markdown 3 = Inr heading"
    using format_heading_ok(2) by blast
  have "\<forall>c\<in>set (depdendency_prs groups). hd c = CHR ''-''"
    using assms(3) by fastforce
  then show ?thesis
    using assms(1,2) h by (auto simp: dependency_block_def split: if_splits)
qed

lemma heading_first_char:
  assumes "format_heading t markdown level = Inr h"
    and "level = 2 \<or> level = 3"
    and "t \<noteq> []"
  shows "h \<noteq> [] \<and> hd h = (if markdown then CHR ''#'' else hd t)"
  using assms by (cases markdown) (auto simp: format_heading_md format_heading_rst)

lemma format_heading_inj:
  assumes "format_heading t markdown 3 = Inr h"
    and "format_heading t' markdown 3 = Inr h"
  shows "t = t'"
proof (cases markdown)
  case True
  with assms show ?thesis by (auto simp: format_heading_md)
next
  case False
  with assms have eq: "t @ ''\<newline>'' @ replicate (length t) CHR ''^'' @ ''\<newline>'' =
      t' @ ''\<newline>'' @ replicate (length t') CHR ''^'' @ ''\<newline>''"
    by (simp add: format_heading_rst)
  then have "length (t @ ''\<newline>'' @ replicate (length t) CHR ''^'' @ ''\<newline>'') =
      length (t' @ ''\<newline>'' @ replicate (length t') CHR ''^'' @ ''\<newline>'')"
    by (rule arg_cong)
  then have "length t = length t'" by simp
  with eq show ?thesis by simp
qed

lemma heading_levels_differ:
  assumes "format_heading t markdown 2 = Inr h"
    and "format_heading t' markdown 3 = Inr h"
  shows "hd t = hd t' \<and> \<not> markdown"
  using assms by (cases markdown; cases t; cases t') (auto simp: format_heading_md format_heading_rst)


lemma headings_eq:
  "\<exists>head_blocks. headings e head_version prerelease markdown groups = Inr head_blocks"
proof (cases "\<exists>hv. head_version = Some hv \<and> patch hv \<noteq> 0 \<and> \<not> beta hv")
  case True
  then obtain hv where "head_version = Some hv" "patch hv \<noteq> 0" "\<not> beta hv" by blast
  then show ?thesis
    using patch_heading_eq [of e hv markdown] by (auto simp: headings_def)
next
  case False
  then have "headings e head_version prerelease markdown groups =
      full_sections prerelease markdown groups"
    by (cases head_version) (auto simp: headings_def)
  then show ?thesis
    using full_sections_eq [of markdown prerelease groups] by auto
qed

lemma render_sections:
  "\<exists>head_blocks dep_blocks.
     headings e head_version prerelease markdown
       (snd (classify project markdown True include_author lines)) = Inr head_blocks \<and>
     dependency_block markdown (snd (classify project markdown True include_author lines)) =
       Inr dep_blocks \<and>
     render e project head_version prerelease markdown True include_author lines =
       Inr (head_blocks @
            collapse_changes markdown (fst (classify project markdown True include_author lines)) @
            [''''] @ dep_blocks)"
proof -
  let ?groups = "snd (classify project markdown True include_author lines)"
  obtain head_blocks where 1: "headings e head_version prerelease markdown ?groups = Inr head_blocks"
    using headings_eq by blast
  obtain dep_blocks where 2: "dependency_block markdown ?groups = Inr dep_blocks"
    using dependency_block_eq [of markdown ?groups] by blast
  from 1 2 show ?thesis
    by (simp add: render_eq assemble_def)
qed

lemma heading_not_in_body:
  assumes "h \<noteq> []" and "hd h \<notin> set ''- <.''"
    and "format_heading ''Dependency Changes'' markdown 3 \<noteq> Inr h"
    and "dependency_block markdown (snd (classify project markdown ws include_author lines)) =
      Inr dep_blocks"
  shows "h \<notin> set (collapse_changes markdown
            (fst (classify project markdown ws include_author lines)) @ [''''] @ dep_blocks)"
proof
  assume "h \<in> set (collapse_changes markdown
            (fst (classify project markdown ws include_author lines)) @ [''''] @ dep_blocks)"
  then consider
      "h \<in> set (collapse_changes markdown (fst (classify project markdown ws include_author lines)))"
    | "h = []" | "h \<in> set dep_blocks"
    by auto
  then show False
  proof cases
    case 1
    then have "h = [] \<or> hd h \<in> set ''- <.''"
      by (rule collapse_changes_blocks) (blast dest: classify_changes_dash)
    with assms(1,2) show False by blast
  next
    case 2
    with assms(1) show False by simp
  next
    case 3
    have "format_heading ''Dependency Changes'' markdown 3 = Inr h \<or> h = [] \<or> hd h \<in> set ''- <.''"
      by (rule dependency_block_blocks [OF assms(4) 3]) (blast dest: classify_dependency_dash)
    with assms(1,2,3) show False by blast
  qed
qed

lemma label_header_titles:
  "t \<in> snd ` set LABEL_HEADERS \<Longrightarrow> t \<noteq> [] \<and> hd t \<in> set ''NB'' \<and>
     t \<noteq> ''Dependency Changes'' \<and> t \<noteq> ''All changes''"
  by (auto simp: LABEL_HEADERS_def)

lemma full_sections_first_chars:
  assumes "full_sections prerelease markdown
      (snd (classify project markdown ws include_author lines)) = Inr blocks"
    and "b \<in> set blocks"
  shows "b = [] \<or> hd b \<in> set ''#-FNBA''"
proof -
  let ?groups = "snd (classify project markdown ws include_author lines)"
  obtain full secs allch where
    full: "format_heading ''Full list of changes'' markdown 2 = Inr full" and
    secs: "header_groups prerelease markdown ?groups LABEL_HEADERS = Inr secs" and
    allch: "format_heading ''All changes'' markdown 3 = Inr allch" and
    eq: "full_sections prerelease markdown ?groups = Inr ([full] @ secs @ [allch])"
    using full_sections_eq [of markdown prerelease ?groups] by blast
  from assms eq consider "b = full" | "b \<in> set secs" | "b = allch" by auto
  then show ?thesis
  proof cases
    case 1
    with heading_first_char [OF full] show ?thesis by (cases markdown) auto
  next
    case 2
    moreover have "\<forall>b\<in>set secs. b = [] \<or> (\<exists>l. b \<in> set (group_lookup ?groups l)) \<or>
        (\<exists>t\<in>snd ` set LABEL_HEADERS. format_heading t markdown 3 = Inr b)"
      using header_groups_blocks [of prerelease markdown ?groups LABEL_HEADERS] secs by auto
    ultimately consider "b = []" | l where "b \<in> set (group_lookup ?groups l)"
      | t where "t \<in> snd ` set LABEL_HEADERS" "format_heading t markdown 3 = Inr b"
      by blast
    then show ?thesis
    proof cases
      case 1
      then show ?thesis by simp
    next
      case 2
      then obtain r where "b = CHR ''-'' # r" using classify_group_dash by blast
      then show ?thesis by simp
    next
      case 3
      from label_header_titles [OF 3(1)] heading_first_char [OF 3(2)]
      show ?thesis by (cases markdown) auto
    qed
  next
    case 3
    with heading_first_char [OF allch] show ?thesis by (cases markdown) auto
  qed
qed

lemma dependency_heading_not_in_sections:
  assumes "full_sections prerelease markdown
      (snd (classify project markdown ws include_author lines)) = Inr blocks"
    and "format_heading ''Dependency Changes'' markdown 3 = Inr h"
  shows "h \<notin> set blocks"
proof
  assume mem: "h \<in> set blocks"
  let ?groups = "snd (classify project markdown ws include_author lines)"
  obtain full secs allch where
    full: "format_heading ''Full list of changes'' markdown 2 = Inr full" and
    secs: "header_groups prerelease markdown ?groups LABEL_HEADERS = Inr secs" and
    allch: "format_heading ''All changes'' markdown 3 = Inr allch" and
    eq: "full_sections prerelease markdown ?groups = Inr ([full] @ secs @ [allch])"
    using full_sections_eq [of markdown prerelease ?groups] by blast
  have hne: "h \<noteq> []" and hhd: "hd h = (if markdown then CHR ''#'' else CHR ''D'')"
    using heading_first_char [OF assms(2)] by auto
  from mem assms(1) eq consider "h = full" | "h \<in> set secs" | "h = allch" by auto
  then show False
  proof cases
    case 1
    with full assms(2) heading_levels_differ [of "''Full list of changes''" markdown h
        "''Dependency Changes''"]
    show False by simp
  next
    case 2
    moreover have "\<forall>b\<in>set secs. b = [] \<or> (\<exists>l. b \<in> set (group_lookup ?groups l)) \<or>
        (\<exists>t\<in>snd ` set LABEL_HEADERS. format_heading t markdown 3 = Inr b)"
      using header_groups_blocks [of prerelease markdown ?groups LABEL_HEADERS] secs by auto
    ultimately consider "h = []" | l where "h \<in> set (group_lookup ?groups l)"
      | t where "t \<in> snd ` set LABEL_HEADERS" "format_heading t markdown 3 = Inr h"
      by blast
    then show False
    proof cases
      case 1
      with hne show False by simp
    next
      case 2
      then obtain r where "h = CHR ''-'' # r" using classify_group_dash by blast
      with hhd show False by (cases markdown) auto
    next
      case 3
      from format_heading_inj [OF 3(2) assms(2)] label_header_titles [OF 3(1)]
      show False by simp
    qed
  next
    case 3
    with format_heading_inj [OF allch] assms(2) show False by fastforce
  qed
qed

subsection \<open>The example document\<close>



lemma example_lines:
  "load_prs example_env bv hv
     (map (get_pr (example_project example_prs)) (prs_between (example_project example_prs) b h)) =
   [(example_pr 1 [''new-feature'', ''dependencies''] None 20, [''new-feature'', ''dependencies'']),
    (example_pr 2 [] None 10, [])]"
  by (simp add: load_prs_def map_filter_def example_project_def example_prs_def job_def
      example_pr_def Let_def)

lemma example_sorted:
  "sorted_lines
     [(example_pr 1 [''new-feature'', ''dependencies''] None 20, [''new-feature'', ''dependencies'']),
      (example_pr 2 [] None 10, [])] =
   [(example_pr 2 [] None 10, []),
    (example_pr 1 [''new-feature'', ''dependencies''] None 20, [''new-feature'', ''dependencies''])]"
  by (simp add: sorted_lines_def example_pr_def)

lemma example_msgs:
  "line_msg (example_project example_prs) False False (example_pr 2 [] None 10, []) =
     ''- Fix :esphomepr:`2`''"
  "line_msg (example_project example_prs) False False
     (example_pr 1 [''new-feature'', ''dependencies''] None 20, [''new-feature'', ''dependencies'']) =
     ''- Fix :esphomepr:`1` (new-feature)''"
  "line_msg (example_project example_prs) True False (example_pr 2 [] None 10, []) =
     ''- Fix [esphome#2](url)''"
  "line_msg (example_project example_prs) True False
     (example_pr 1 [''new-feature'', ''dependencies''] None 20, [''new-feature'', ''dependencies'']) =
     ''- Fix [esphome#1](url) (new-feature)''"
  by (simp_all add: line_msg_def LINE_LABELS_def format_line_def example_project_def
      example_pr_def example_user_def str_int_def str_nat_digit digit_char_def)



lemma example_classify:
  "classify (example_project example_prs) False True False
     [(example_pr 1 [''new-feature'', ''dependencies''] None 20, [''new-feature'', ''dependencies'']),
      (example_pr 2 [] None 10, [])] =
   ([''- Fix :esphomepr:`2`''],
    [(''new-feature'', [''- Fix :esphomepr:`1` (new-feature)'']),
     (''dependencies'', [''- Fix :esphomepr:`1` (new-feature)''])])"
  "classify (example_project example_prs) True True False
     [(example_pr 1 [''new-feature'', ''dependencies''] None 20, [''new-feature'', ''dependencies'']),
      (example_pr 2 [] None 10, [])] =
   ([''- Fix [esphome#2](url)''],
    [(''new-feature'', [''- Fix [esphome#1](url) (new-feature)'']),
     (''dependencies'', [''- Fix [esphome#1](url) (new-feature)''])])"
  "classify (example_project example_prs) True False False
     [(example_pr 1 [''new-feature'', ''dependencies''] None 20, [''new-feature'', ''dependencies'']),
      (example_pr 2 [] None 10, [])] =
   ([''- Fix [esphome#2](url)'', ''- Fix [esphome#1](url) (new-feature)''],
    [(''new-feature'', [''- Fix [esphome#1](url) (new-feature)'']),
     (''dependencies'', [''- Fix [esphome#1](url) (new-feature)''])])"
  by (simp_all add: classify_def example_sorted example_msgs Let_def has_dependency_label_iff)

lemma example_version_sel:
  "major (example_version a b c pre) = a"
  "minor (example_version a b c pre) = b"
  "patch (example_version a b c pre) = c"
  "beta (example_version a b c pre) = pre"
  by (simp_all add: example_version_def)

lemma example_release_heading:
  "patch_heading example_env (example_version 2024 3 2 False) False =
     Inr [''Release 2024.3.2 - March 5\<newline>--------------------------\<newline>'']"
  by (simp add: patch_heading_def format_heading_rst example_env_def example_version_str_def
      example_version_sel str_int_def str_nat.simps digit_char_def)


subsection \<open>The unified list in section mode\<close>

lemma generate_outp_render:
  "generate_outp e project base base_version head head_version prerelease markdown
     with_sections include_author =
   render e project head_version prerelease markdown with_sections include_author
     (load_prs e base_version head_version (map (get_pr project) (prs_between project base head)))"
  by (simp add: generate_outp_def Let_def)

text \<open>
  C3 (as the code has it). With section mode enabled the document always holds the
  unified list inside a collapsible block, in both output formats: the blocks of the
  heading decision, then the collapsible block, an empty block, and the blocks of the
  dependency section. The \<open>All changes\<close> sub-heading is the block right before the
  collapsible block when the head version is absent, has patch number 0 or is a beta;
  for a non-beta patch release no block of the document is that sub-heading.
\<close>

theorem section_mode_collapsible_block:
  fixes e :: env and project :: "'b project" and base head :: 'b
    and base_version :: version and head_version :: "version option"
    and prerelease markdown include_author :: bool
  defines "lines \<equiv>
    load_prs e base_version head_version (map (get_pr project) (prs_between project base head))"
  defines "changes \<equiv>
    map (line_msg project markdown include_author)
      (filter (\<lambda>entry. \<not> has_dependency_label (snd entry)) (sorted_lines lines))"
  defines "block \<equiv>
    if markdown then [''<details>'', ''<summary>Show</summary>'', ''''] @ changes @ [''</details>'']
    else [''.. collapse:: Show'', ''    :open:'', ''''] @ map (\<lambda>pr_line. ''    '' @ pr_line) changes"
  shows "\<exists>head_blocks dep_blocks allch.
      generate_outp e project base base_version head head_version prerelease markdown True
        include_author = Inr (head_blocks @ block @ [''''] @ dep_blocks)
    \<and> generate e project base base_version head head_version prerelease markdown True
        include_author = Inr (join ''\<newline>'' (head_blocks @ block @ [''''] @ dep_blocks))
    \<and> format_heading ''All changes'' markdown 3 = Inr allch
    \<and> (if (case head_version of None \<Rightarrow> False | Some hv \<Rightarrow> patch hv \<noteq> 0 \<and> \<not> beta hv)
        then allch \<notin> set (head_blocks @ block @ [''''] @ dep_blocks)
        else head_blocks \<noteq> [] \<and> last head_blocks = allch)"
proof -
  let ?groups = "snd (classify project markdown True include_author lines)"
  have blk: "block = collapse_changes markdown (fst (classify project markdown True include_author lines))"
    by (simp add: block_def changes_def collapse_changes_def classify_changes)
  obtain head_blocks dep_blocks where
    hb: "headings e head_version prerelease markdown ?groups = Inr head_blocks" and
    db: "dependency_block markdown ?groups = Inr dep_blocks" and
    outp: "render e project head_version prerelease markdown True include_author lines =
       Inr (head_blocks @ block @ [''''] @ dep_blocks)"
    unfolding blk using render_sections [of e head_version prerelease markdown project include_author lines]
    by blast
  obtain allch where allch: "format_heading ''All changes'' markdown 3 = Inr allch"
    using format_heading_ok(2) by blast
  have g1: "generate_outp e project base base_version head head_version prerelease markdown True
        include_author = Inr (head_blocks @ block @ [''''] @ dep_blocks)"
    using outp by (simp add: generate_outp_render lines_def)
  then have g2: "generate e project base base_version head head_version prerelease markdown True
        include_author = Inr (join ''\<newline>'' (head_blocks @ block @ [''''] @ dep_blocks))"
    by (simp add: generate_def)
  have a_ne: "allch \<noteq> []" and a_hd: "hd allch = (if markdown then CHR ''#'' else CHR ''A'')"
    using heading_first_char [OF allch] by auto
  have a_dep: "format_heading ''Dependency Changes'' markdown 3 \<noteq> Inr allch"
    using format_heading_inj [OF allch, of "''Dependency Changes''"] by auto
  have body: "allch \<notin> set (block @ [''''] @ dep_blocks)"
    unfolding blk using a_ne a_hd a_dep db
    by (intro heading_not_in_body) (auto split: if_splits)
  show ?thesis
  proof (cases "case head_version of None \<Rightarrow> False | Some hv \<Rightarrow> patch hv \<noteq> 0 \<and> \<not> beta hv")
    case True
    then obtain hv where hv: "head_version = Some hv" "patch hv \<noteq> 0" "\<not> beta hv"
      by (auto split: option.splits)
    obtain release where
      r: "format_heading (''Release '' @ version_str e hv @ '' - '' @ now_month_name e @ '' '' @
         str_int (now_day e)) False 2 = Inr release" and
      p: "patch_heading e hv markdown = Inr (if markdown then [] else [release])"
      using patch_heading_eq by blast
    have "head_blocks = (if markdown then [] else [release])"
      using hb hv p by (simp add: headings_def)
    moreover have "hd release = CHR ''R''"
      using heading_first_char [OF r] by simp
    ultimately have "allch \<notin> set head_blocks"
      using a_hd by (auto split: if_splits)
    with body True g1 g2 allch show ?thesis by auto
  next
    case False
    then have "headings e head_version prerelease markdown ?groups =
        full_sections prerelease markdown ?groups"
      by (cases head_version) (auto simp: headings_def)
    with hb allch full_sections_eq [of markdown prerelease ?groups]
    have "head_blocks \<noteq> [] \<and> last head_blocks = allch" by auto
    with False g1 g2 allch show ?thesis by auto
  qed
qed





theorem section_mode_collapsible_block_witness:
  "\<exists>head_blocks dep_blocks.
     generate_outp example_env (example_project example_prs) () (example_version 2024 3 0 False) ()
       (Some (example_version 2024 4 0 False)) False True True False =
     Inr (head_blocks @
          [''<details>'', ''<summary>Show</summary>'', '''', ''- Fix [esphome#2](url)'',
           ''</details>''] @ [''''] @ dep_blocks)
     \<and> head_blocks \<noteq> [] \<and> last head_blocks = ''### All changes\<newline>''"
  using section_mode_collapsible_block [of example_env "example_project example_prs" "()"
      "example_version 2024 3 0 False" "()" "Some (example_version 2024 4 0 False)" False True False]
  by (simp add: example_lines example_sorted example_msgs has_dependency_label_iff
      format_heading_md example_version_sel) blast

text \<open>
  C3 as stated fails for a non-beta patch release: with head version \<open>2024.3.2\<close>, section
  mode enabled and the plain markup, the document starts with the release heading and
  holds no \<open>All changes\<close> sub-heading.
\<close>

theorem patch_release_no_all_changes_counterexample:
  "generate_outp example_env (example_project example_prs) () (example_version 2024 3 0 False) ()
     (Some (example_version 2024 3 2 False)) False False True False =
   Inr [''Release 2024.3.2 - March 5\<newline>--------------------------\<newline>'',
        ''.. collapse:: Show'', ''    :open:'', '''', ''    - Fix :esphomepr:`2`'', '''',
        ''Dependency Changes\<newline>^^^^^^^^^^^^^^^^^^\<newline>'',
        ''.. collapse:: Show'', '''', ''    - Fix :esphomepr:`1` (new-feature)'', '''']
   \<and> format_heading ''All changes'' False 3 = Inr ''All changes\<newline>^^^^^^^^^^^\<newline>''
   \<and> ''All changes\<newline>^^^^^^^^^^^\<newline>'' \<notin> set
       [''Release 2024.3.2 - March 5\<newline>--------------------------\<newline>'',
        ''.. collapse:: Show'', ''    :open:'', '''', ''    - Fix :esphomepr:`2`'', '''',
        ''Dependency Changes\<newline>^^^^^^^^^^^^^^^^^^\<newline>'',
        ''.. collapse:: Show'', '''', ''    - Fix :esphomepr:`1` (new-feature)'', '''']"
  by (simp add: generate_outp_render example_lines render_eq example_classify assemble_def
      headings_def example_release_heading example_version_sel collapse_changes_def
      dependency_block_def depdendency_prs_def DEPENDENCY_LABELS_def format_heading_rst)

subsection \<open>An absent head version\<close>

text \<open>
  C10. With \<open>head_version\<close> absent and section mode enabled, \<open>generate\<close> returns a
  document (no error): the \<open>Full list of changes\<close> heading, the label sub-headings with
  their groups, the \<open>All changes\<close> sub-heading, the collapsible block of the unified
  list, an empty block and the dependency section. No block of it is a patch-release
  heading, for any version and date.
\<close>

theorem absent_head_version_full_sections:
  fixes e :: env and project :: "'b project" and base head :: 'b
    and base_version :: version and prerelease markdown include_author :: bool
  defines "lines \<equiv>
    load_prs e base_version None (map (get_pr project) (prs_between project base head))"
  defines "groups \<equiv> snd (classify project markdown True include_author lines)"
  defines "changes \<equiv>
    map (line_msg project markdown include_author)
      (filter (\<lambda>entry. \<not> has_dependency_label (snd entry)) (sorted_lines lines))"
  shows "\<exists>full secs allch dep_blocks.
      generate_outp e project base base_version head None prerelease markdown True
        include_author =
        Inr ([full] @ secs @ [allch] @ collapse_changes markdown changes @ [''''] @ dep_blocks)
    \<and> generate e project base base_version head None prerelease markdown True include_author =
        Inr (join ''\<newline>''
          ([full] @ secs @ [allch] @ collapse_changes markdown changes @ [''''] @ dep_blocks))
    \<and> format_heading ''Full list of changes'' markdown 2 = Inr full
    \<and> header_groups prerelease markdown groups LABEL_HEADERS = Inr secs
    \<and> format_heading ''All changes'' markdown 3 = Inr allch
    \<and> dependency_block markdown groups = Inr dep_blocks
    \<and> (\<forall>e' hv release. patch_heading e' hv False = Inr [release] \<longrightarrow>
          release \<notin> set ([full] @ secs @ [allch] @ collapse_changes markdown changes @ [''''] @
            dep_blocks))"
proof -
  have ch: "changes = fst (classify project markdown True include_author lines)"
    by (simp add: changes_def classify_changes)
  obtain head_blocks dep_blocks where
    hb: "headings e None prerelease markdown groups = Inr head_blocks" and
    db: "dependency_block markdown groups = Inr dep_blocks" and
    outp: "render e project None prerelease markdown True include_author lines =
       Inr (head_blocks @ collapse_changes markdown changes @ [''''] @ dep_blocks)"
    unfolding ch groups_def
    using render_sections [of e None prerelease markdown project include_author lines]
    by blast
  obtain full secs allch where
    full: "format_heading ''Full list of changes'' markdown 2 = Inr full" and
    secs: "header_groups prerelease markdown groups LABEL_HEADERS = Inr secs" and
    allch: "format_heading ''All changes'' markdown 3 = Inr allch" and
    fs: "full_sections prerelease markdown groups = Inr ([full] @ secs @ [allch])"
    using full_sections_eq [of markdown prerelease groups] by blast
  have hb_eq: "head_blocks = [full] @ secs @ [allch]"
    using hb fs by (simp add: headings_def)
  have g1: "generate_outp e project base base_version head None prerelease markdown True
        include_author =
        Inr ([full] @ secs @ [allch] @ collapse_changes markdown changes @ [''''] @ dep_blocks)"
    using outp hb_eq by (simp add: generate_outp_render lines_def)
  then have g2: "generate e project base base_version head None prerelease markdown True
        include_author =
        Inr (join ''\<newline>''
          ([full] @ secs @ [allch] @ collapse_changes markdown changes @ [''''] @ dep_blocks))"
    by (simp add: generate_def)
  have no_release: "release \<notin> set ([full] @ secs @ [allch] @ collapse_changes markdown changes @
      [''''] @ dep_blocks)" if p: "patch_heading e' hv False = Inr [release]" for e' hv release
  proof -
    obtain r where
      r: "format_heading (''Release '' @ version_str e' hv @ '' - '' @ now_month_name e' @
        '' '' @ str_int (now_day e')) False 2 = Inr r" and
      pr: "patch_heading e' hv False = Inr (if False then [] else [r])"
      using patch_heading_eq by blast
    with p have "release = r" by simp
    with heading_first_char [OF r] have ne: "release \<noteq> []" and hd: "hd release = CHR ''R''"
      by auto
    have "release \<notin> set ([full] @ secs @ [allch])"
      using full_sections_first_chars [OF fs [unfolded groups_def], of release] ne hd by auto
    moreover have "format_heading ''Dependency Changes'' markdown 3 \<noteq> Inr release"
      using heading_first_char [of "''Dependency Changes''" markdown 3 release] hd
      by (auto split: if_splits)
    then have "release \<notin> set (collapse_changes markdown changes @ [''''] @ dep_blocks)"
      unfolding ch using ne hd db [unfolded groups_def]
      by (intro heading_not_in_body) auto
    ultimately show ?thesis by auto
  qed
  from g1 g2 full secs allch db no_release show ?thesis by blast
qed


lemma example_document_absent_head:
  "generate_outp example_env (example_project example_prs) () (example_version 2024 3 0 False) ()
     None False True True False =
   Inr [''## Full list of changes\<newline>'', ''### New Features\<newline>'',
        ''- Fix [esphome#1](url) (new-feature)'', '''', ''### All changes\<newline>'',
        ''<details>'', ''<summary>Show</summary>'', '''', ''- Fix [esphome#2](url)'',
        ''</details>'', '''', ''### Dependency Changes\<newline>'', ''<details>'',
        ''<summary>Show</summary>'', '''', ''- Fix [esphome#1](url) (new-feature)'',
        ''</details>'']"
  by (simp add: generate_outp_render example_lines render_eq example_classify assemble_def
      headings_def full_sections_def LABEL_HEADERS_def group_lookup_def collapse_changes_def
      dependency_block_def depdendency_prs_def DEPENDENCY_LABELS_def format_heading_md)

theorem absent_head_version_full_sections_witness:
  "generate_outp example_env (example_project example_prs) () (example_version 2024 3 0 False) ()
     None False True True False =
   Inr [''## Full list of changes\<newline>'', ''### New Features\<newline>'',
        ''- Fix [esphome#1](url) (new-feature)'', '''', ''### All changes\<newline>'',
        ''<details>'', ''<summary>Show</summary>'', '''', ''- Fix [esphome#2](url)'',
        ''</details>'', '''', ''### Dependency Changes\<newline>'', ''<details>'',
        ''<summary>Show</summary>'', '''', ''- Fix [esphome#1](url) (new-feature)'',
        ''</details>'']
   \<and> patch_heading example_env (example_version 2024 3 2 False) False =
       Inr [''Release 2024.3.2 - March 5\<newline>--------------------------\<newline>'']
   \<and> ''Release 2024.3.2 - March 5\<newline>--------------------------\<newline>'' \<notin> set
       [''## Full list of changes\<newline>'', ''### New Features\<newline>'',
        ''- Fix [esphome#1](url) (new-feature)'', '''', ''### All changes\<newline>'',
        ''<details>'', ''<summary>Show</summary>'', '''', ''- Fix [esphome#2](url)'',
        ''</details>'', '''', ''### Dependency Changes\<newline>'', ''<details>'',
        ''<summary>Show</summary>'', '''', ''- Fix [esphome#1](url) (new-feature)'',
        ''</details>'']"
proof -
  have "\<exists>outp.
      generate_outp example_env (example_project example_prs) ()
        (example_version 2024 3 0 False) () None False True True False = Inr outp \<and>
      (\<forall>e' hv release. patch_heading e' hv False = Inr [release] \<longrightarrow> release \<notin> set outp)"
    using absent_head_version_full_sections [where e = example_env
        and project = "example_project example_prs" and base = "()" and head = "()"
        and base_version = "example_version 2024 3 0 False" and prerelease = False
        and markdown = True and include_author = False]
    by blast
  then obtain outp where
    g: "generate_outp example_env (example_project example_prs) ()
        (example_version 2024 3 0 False) () None False True True False = Inr outp" and
    nr: "\<forall>e' hv release. patch_heading e' hv False = Inr [release] \<longrightarrow> release \<notin> set outp"
    by blast
  from g have outp: "outp =
       [''## Full list of changes\<newline>'', ''### New Features\<newline>'',
        ''- Fix [esphome#1](url) (new-feature)'', '''', ''### All changes\<newline>'',
        ''<details>'', ''<summary>Show</summary>'', '''', ''- Fix [esphome#2](url)'',
        ''</details>'', '''', ''### Dependency Changes\<newline>'', ''<details>'',
        ''<summary>Show</summary>'', '''', ''- Fix [esphome#1](url) (new-feature)'',
        ''</details>'']"
    by (simp add: example_document_absent_head)
  from nr example_release_heading
  have "''Release 2024.3.2 - March 5\<newline>--------------------------\<newline>'' \<notin> set outp"
    by blast
  with g outp example_release_heading show ?thesis by blast
qed

subsection \<open>The dependency section\<close>

lemma headings_no_dependency_heading:
  assumes "headings e head_version prerelease markdown
      (snd (classify project markdown ws include_author lines)) = Inr head_blocks"
    and "format_heading ''Dependency Changes'' markdown 3 = Inr h"
  shows "h \<notin> set head_blocks"
proof (cases "case head_version of None \<Rightarrow> False | Some hv \<Rightarrow> patch hv \<noteq> 0 \<and> \<not> beta hv")
  case True
  then obtain hv where hv: "head_version = Some hv" "patch hv \<noteq> 0" "\<not> beta hv"
    by (auto split: option.splits)
  obtain release where
    r: "format_heading (''Release '' @ version_str e hv @ '' - '' @ now_month_name e @ '' '' @
       str_int (now_day e)) False 2 = Inr release" and
    p: "patch_heading e hv markdown = Inr (if markdown then [] else [release])"
    using patch_heading_eq by blast
  have "head_blocks = (if markdown then [] else [release])"
    using assms(1) hv p by (simp add: headings_def)
  moreover have "hd release = CHR ''R''"
    using heading_first_char [OF r] by simp
  moreover have "hd h = (if markdown then CHR ''#'' else CHR ''D'')"
    using heading_first_char [OF assms(2)] by simp
  ultimately show ?thesis by (auto split: if_splits)
next
  case False
  then have "headings e head_version prerelease markdown
      (snd (classify project markdown ws include_author lines)) =
      full_sections prerelease markdown (snd (classify project markdown ws include_author lines))"
    by (cases head_version) (auto simp: headings_def)
  with assms(1) have "full_sections prerelease markdown
      (snd (classify project markdown ws include_author lines)) = Inr head_blocks"
    by simp
  then show ?thesis
    using assms(2) by (rule dependency_heading_not_in_sections)
qed

text \<open>
  C2 (as the code has it). With section mode enabled: when an included record carries a
  label of \<open>DEPENDENCY_LABELS\<close>, the document ends, after the main body (the heading
  blocks, the collapsible block of the unified list and an empty block), with the
  \<open>Dependency Changes\<close> heading followed by those records' lines in a collapsible
  block; when no included record carries such a label, no block of the document is that
  heading. With section mode disabled the document is the unified list of all included
  records followed by an empty block, and no block of it is that heading.
\<close>

theorem dependency_changes_block:
  fixes e :: env and project :: "'b project" and base head :: 'b
    and base_version :: version and head_version :: "version option"
    and prerelease markdown with_sections include_author :: bool
  defines "lines \<equiv>
    load_prs e base_version head_version (map (get_pr project) (prs_between project base head))"
  defines "changes \<equiv>
    map (line_msg project markdown include_author)
      (filter (\<lambda>entry. \<not> has_dependency_label (snd entry)) (sorted_lines lines))"
  defines "dep_lines \<equiv>
    map (line_msg project markdown include_author)
      [entry. entry \<leftarrow> sorted_lines lines, label \<leftarrow> snd entry, label \<in> set DEPENDENCY_LABELS]"
  defines "outp \<equiv>
    generate_outp e project base base_version head head_version prerelease markdown with_sections
      include_author"
  shows "\<exists>heading. format_heading ''Dependency Changes'' markdown 3 = Inr heading \<and>
     (if with_sections \<and> (\<exists>entry\<in>set lines. has_dependency_label (snd entry)) then
        dep_lines \<noteq> [] \<and>
        (\<exists>head_blocks.
           outp = Inr (head_blocks @ collapse_changes markdown changes @ [''''] @ [heading] @
             (if markdown then
                [''<details>'', ''<summary>Show</summary>'', ''''] @ dep_lines @ [''</details>'']
              else
                [''.. collapse:: Show'', ''''] @ map (\<lambda>pr_line. ''    '' @ pr_line) dep_lines @
                [''''])))
      else \<exists>blocks. outp = Inr blocks \<and> heading \<notin> set blocks) \<and>
     (with_sections \<or>
      outp = Inr (map (line_msg project markdown include_author) (sorted_lines lines) @ ['''']))"
proof -
  obtain heading where h: "format_heading ''Dependency Changes'' markdown 3 = Inr heading"
    using format_heading_ok(2) by blast
  have h_ne: "heading \<noteq> []" and h_hd: "hd heading = (if markdown then CHR ''#'' else CHR ''D'')"
    using heading_first_char [OF h] by auto
  show ?thesis
  proof (cases with_sections)
    case True
    let ?groups = "snd (classify project markdown True include_author lines)"
    have ch: "changes = fst (classify project markdown True include_author lines)"
      by (simp add: changes_def classify_changes)
    have dl: "dep_lines = depdendency_prs ?groups"
      by (simp add: dep_lines_def classify_dependency_prs DEPENDENCY_LABELS_def)
    obtain head_blocks dep_blocks where
      hb: "headings e head_version prerelease markdown ?groups = Inr head_blocks" and
      db: "dependency_block markdown ?groups = Inr dep_blocks" and
      r: "render e project head_version prerelease markdown True include_author lines =
         Inr (head_blocks @ collapse_changes markdown changes @ [''''] @ dep_blocks)"
      unfolding ch
      using render_sections [of e head_version prerelease markdown project include_author lines]
      by blast
    have o: "outp = Inr (head_blocks @ collapse_changes markdown changes @ [''''] @ dep_blocks)"
      using r True by (simp add: outp_def generate_outp_render lines_def)
    show ?thesis
    proof (cases "\<exists>entry\<in>set lines. has_dependency_label (snd entry)")
      case some: True
      then have ne: "dep_lines \<noteq> []"
        by (simp add: dl classify_dependency_nonempty)
      with db h have "dep_blocks = [heading] @
             (if markdown then
                [''<details>'', ''<summary>Show</summary>'', ''''] @ dep_lines @ [''</details>'']
              else
                [''.. collapse:: Show'', ''''] @ map (\<lambda>pr_line. ''    '' @ pr_line) dep_lines @
                [''''])"
        by (auto simp: dependency_block_def dl)
      with o have "\<exists>head_blocks.
           outp = Inr (head_blocks @ collapse_changes markdown changes @ [''''] @ [heading] @
             (if markdown then
                [''<details>'', ''<summary>Show</summary>'', ''''] @ dep_lines @ [''</details>'']
              else
                [''.. collapse:: Show'', ''''] @ map (\<lambda>pr_line. ''    '' @ pr_line) dep_lines @
                ['''']))"
        by blast
      with h ne some True show ?thesis by auto
    next
      case none: False
      then have "dep_lines = []"
        using classify_dependency_nonempty [of project markdown True include_author lines]
        by (simp add: dl)
      with db have d0: "dep_blocks = []"
        by (simp add: dependency_block_def dl)
      have 1: "heading \<notin> set head_blocks"
        using hb h by (rule headings_no_dependency_heading)
      have 2: "heading \<notin> set (collapse_changes markdown changes)"
      proof
        assume "heading \<in> set (collapse_changes markdown changes)"
        then have "heading = [] \<or> hd heading \<in> set ''- <.''"
          unfolding ch by (rule collapse_changes_blocks) (blast dest: classify_changes_dash)
        with h_ne h_hd show False by (auto split: if_splits)
      qed
      from 1 2 h_ne d0 o have "\<exists>blocks. outp = Inr blocks \<and> heading \<notin> set blocks"
        by auto
      with h none True show ?thesis by auto
    qed
  next
    case False
    have c: "fst (classify project markdown False include_author lines) =
        map (line_msg project markdown include_author) (sorted_lines lines)"
      by (simp add: classify_changes)
    have o: "outp = Inr (map (line_msg project markdown include_author) (sorted_lines lines) @ [''''])"
      using False c by (simp add: outp_def generate_outp_render lines_def render_eq assemble_def)
    have "heading \<notin> set (map (line_msg project markdown include_author)
        (sorted_lines lines) @ [''''])"
    proof
      assume "heading \<in> set (map (line_msg project markdown include_author)
        (sorted_lines lines) @ [''''])"
      with h_ne obtain entry where "heading = line_msg project markdown include_author entry"
        by auto
      then have "hd heading = CHR ''-''"
        using line_msg_dash [of project markdown include_author entry] by auto
      with h_hd show False by (auto split: if_splits)
    qed
    with o h False show ?thesis by auto
  qed
qed


theorem dependency_changes_block_witness:
  "\<exists>head_blocks.
     generate_outp example_env (example_project example_prs) () (example_version 2024 3 0 False) ()
       (Some (example_version 2024 4 0 False)) False True True False =
     Inr (head_blocks @
          [''<details>'', ''<summary>Show</summary>'', '''', ''- Fix [esphome#2](url)'',
           ''</details>'', '''', ''### Dependency Changes\<newline>'',
           ''<details>'', ''<summary>Show</summary>'', '''',
           ''- Fix [esphome#1](url) (new-feature)'', ''</details>''])"
  using dependency_changes_block [where e = example_env
      and project = "example_project example_prs" and base = "()" and head = "()"
      and base_version = "example_version 2024 3 0 False"
      and head_version = "Some (example_version 2024 4 0 False)" and prerelease = False
      and markdown = True and with_sections = True and include_author = False]
  by (simp add: example_lines example_sorted example_msgs has_dependency_label_iff
      format_heading_md DEPENDENCY_LABELS_def collapse_changes_def)

text \<open>
  C2 as stated fails with section mode disabled: a record labelled \<open>dependencies\<close> is
  included, and the document is the flat list without a \<open>Dependency Changes\<close> heading.
\<close>

theorem no_sections_no_dependency_block_counterexample:
  "load_prs example_env (example_version 2024 3 0 False) (Some (example_version 2024 4 0 False))
     (map (get_pr (example_project example_prs))
       (prs_between (example_project example_prs) () ())) =
   [(example_pr 1 [''new-feature'', ''dependencies''] None 20, [''new-feature'', ''dependencies'']),
    (example_pr 2 [] None 10, [])]
   \<and> has_dependency_label [''new-feature'', ''dependencies'']
   \<and> generate_outp example_env (example_project example_prs) () (example_version 2024 3 0 False) ()
       (Some (example_version 2024 4 0 False)) False True False False =
     Inr [''- Fix [esphome#2](url)'', ''- Fix [esphome#1](url) (new-feature)'', '''']
   \<and> generate example_env (example_project example_prs) () (example_version 2024 3 0 False) ()
       (Some (example_version 2024 4 0 False)) False True False False =
     Inr ''- Fix [esphome#2](url)\<newline>- Fix [esphome#1](url) (new-feature)\<newline>''
   \<and> format_heading ''Dependency Changes'' True 3 = Inr ''### Dependency Changes\<newline>''
   \<and> ''### Dependency Changes\<newline>'' \<notin> set
       [''- Fix [esphome#2](url)'', ''- Fix [esphome#1](url) (new-feature)'', '''']"
  by (simp add: example_lines has_dependency_label_iff generate_def generate_outp_render
      render_eq example_classify assemble_def format_heading_md)

subsection \<open>Dependency records and the unified list\<close>

lemma render_dependency_section:
  assumes "\<exists>entry\<in>set lines. has_dependency_label (snd entry)"
  shows "\<exists>head_blocks heading.
     format_heading ''Dependency Changes'' markdown 3 = Inr heading \<and>
     render e project head_version prerelease markdown True include_author lines =
       Inr (head_blocks @
            collapse_changes markdown (fst (classify project markdown True include_author lines)) @
            [''''] @ [heading] @
            (if markdown then
               [''<details>'', ''<summary>Show</summary>'', ''''] @
               depdendency_prs (snd (classify project markdown True include_author lines)) @
               [''</details>'']
             else
               [''.. collapse:: Show'', ''''] @
               map (\<lambda>pr_line. ''    '' @ pr_line)
                 (depdendency_prs (snd (classify project markdown True include_author lines))) @
               ['''']))"
proof -
  let ?groups = "snd (classify project markdown True include_author lines)"
  obtain head_blocks dep_blocks where
    db: "dependency_block markdown ?groups = Inr dep_blocks" and
    r: "render e project head_version prerelease markdown True include_author lines =
       Inr (head_blocks @
            collapse_changes markdown (fst (classify project markdown True include_author lines)) @
            [''''] @ dep_blocks)"
    using render_sections [of e head_version prerelease markdown project include_author lines]
    by blast
  obtain heading where h: "format_heading ''Dependency Changes'' markdown 3 = Inr heading"
    using format_heading_ok(2) by blast
  have "depdendency_prs ?groups \<noteq> []"
    using assms by (simp add: classify_dependency_nonempty)
  with db h have "dep_blocks = [heading] @
            (if markdown then
               [''<details>'', ''<summary>Show</summary>'', ''''] @
               depdendency_prs ?groups @ [''</details>'']
             else
               [''.. collapse:: Show'', ''''] @
               map (\<lambda>pr_line. ''    '' @ pr_line) (depdendency_prs ?groups) @ [''''])"
    by (auto simp: dependency_block_def)
  with r h show ?thesis by blast
qed

lemma entry_in_group_entries:
  assumes "entry \<in> set lines" and "label \<in> set (snd entry)"
  shows "entry \<in> set [other. other \<leftarrow> sorted_lines lines, l \<leftarrow> snd other, l = label]"
proof -
  have "entry \<in> set (sorted_lines lines)"
    using assms(1) by (simp add: sorted_lines_def)
  with assms(2) show ?thesis by auto
qed

text \<open>
  C7. With section mode enabled, take an included record that carries a label of
  \<open>DEPENDENCY_LABELS\<close>. The unified list is the rendering of the sorted lines without a
  dependency label, so the record is not among the lines it renders (and its line is
  not in the list unless a record without dependency label renders to the same text). Its
  line is in the group of each of its labels, and in the list of dependency lines, which
  the document shows in the collapsible block after the \<open>Dependency Changes\<close> heading.
\<close>

theorem dependency_record_classification:
  fixes e :: env and project :: "'b project" and base head :: 'b
    and base_version :: version and head_version :: "version option"
    and prerelease markdown include_author :: bool
  defines "lines \<equiv>
    load_prs e base_version head_version (map (get_pr project) (prs_between project base head))"
  defines "changes \<equiv> fst (classify project markdown True include_author lines)"
  defines "groups \<equiv> snd (classify project markdown True include_author lines)"
  assumes "entry \<in> set lines" and "has_dependency_label (snd entry)"
  shows "changes =
       map (line_msg project markdown include_author)
         (filter (\<lambda>other. \<not> has_dependency_label (snd other)) (sorted_lines lines))
    \<and> entry \<notin> set (filter (\<lambda>other. \<not> has_dependency_label (snd other)) (sorted_lines lines))
    \<and> ((\<forall>other\<in>set lines. \<not> has_dependency_label (snd other) \<longrightarrow>
           line_msg project markdown include_author other \<noteq>
           line_msg project markdown include_author entry) \<longrightarrow>
         line_msg project markdown include_author entry \<notin> set changes)
    \<and> (\<forall>label\<in>set (snd entry).
         line_msg project markdown include_author entry \<in> set (group_lookup groups label))
    \<and> line_msg project markdown include_author entry \<in> set (depdendency_prs groups)
    \<and> (\<exists>head_blocks heading.
         format_heading ''Dependency Changes'' markdown 3 = Inr heading \<and>
         generate_outp e project base base_version head head_version prerelease markdown True
           include_author =
           Inr (head_blocks @ collapse_changes markdown changes @ [''''] @ [heading] @
             (if markdown then
                [''<details>'', ''<summary>Show</summary>'', ''''] @ depdendency_prs groups @
                [''</details>'']
              else
                [''.. collapse:: Show'', ''''] @
                map (\<lambda>pr_line. ''    '' @ pr_line) (depdendency_prs groups) @ [''''])))"
proof -
  have c: "changes =
       map (line_msg project markdown include_author)
         (filter (\<lambda>other. \<not> has_dependency_label (snd other)) (sorted_lines lines))"
    by (simp add: changes_def classify_changes)
  have n: "entry \<notin> set (filter (\<lambda>other. \<not> has_dependency_label (snd other)) (sorted_lines lines))"
    using assms(5) by simp
  have u: "line_msg project markdown include_author entry \<notin> set changes"
    if "\<forall>other\<in>set lines. \<not> has_dependency_label (snd other) \<longrightarrow>
           line_msg project markdown include_author other \<noteq>
           line_msg project markdown include_author entry"
    using that by (auto simp: c sorted_lines_def)
  have g: "line_msg project markdown include_author entry \<in> set (group_lookup groups label)"
    if "label \<in> set (snd entry)" for label
    using entry_in_group_entries [OF assms(4) that]
    by (simp only: groups_def classify_groups set_map) (rule imageI)
  have m: "''dependencies'' \<in> set (snd entry)"
    using assms(5) by (simp add: has_dependency_label_iff)
  have d: "line_msg project markdown include_author entry \<in> set (depdendency_prs groups)"
    using entry_in_group_entries [OF assms(4) m]
    by (simp only: groups_def classify_dependency_prs set_map) (rule imageI)
  have "\<exists>entry\<in>set lines. has_dependency_label (snd entry)"
    using assms(4,5) by blast
  then have r: "\<exists>head_blocks heading.
         format_heading ''Dependency Changes'' markdown 3 = Inr heading \<and>
         generate_outp e project base base_version head head_version prerelease markdown True
           include_author =
           Inr (head_blocks @ collapse_changes markdown changes @ [''''] @ [heading] @
             (if markdown then
                [''<details>'', ''<summary>Show</summary>'', ''''] @ depdendency_prs groups @
                [''</details>'']
              else
                [''.. collapse:: Show'', ''''] @
                map (\<lambda>pr_line. ''    '' @ pr_line) (depdendency_prs groups) @ ['''']))"
    unfolding generate_outp_render changes_def groups_def lines_def
    by (rule render_dependency_section)
  from c n u g d r show ?thesis by blast
qed


lemma example_document_sections:
  "generate_outp example_env (example_project example_prs) () (example_version 2024 3 0 False) ()
     (Some (example_version 2024 4 0 False)) False True True False =
   Inr [''## Full list of changes\<newline>'', ''### New Features\<newline>'',
        ''- Fix [esphome#1](url) (new-feature)'', '''', ''### All changes\<newline>'',
        ''<details>'', ''<summary>Show</summary>'', '''', ''- Fix [esphome#2](url)'',
        ''</details>'', '''', ''### Dependency Changes\<newline>'', ''<details>'',
        ''<summary>Show</summary>'', '''', ''- Fix [esphome#1](url) (new-feature)'',
        ''</details>'']"
  by (simp add: generate_outp_render example_lines render_eq example_classify assemble_def
      headings_def example_version_sel full_sections_def LABEL_HEADERS_def group_lookup_def
      collapse_changes_def dependency_block_def depdendency_prs_def DEPENDENCY_LABELS_def
      format_heading_md)

theorem dependency_record_classification_witness:
  "(example_pr 1 [''new-feature'', ''dependencies''] None 20, [''new-feature'', ''dependencies''])
     \<in> set (load_prs example_env (example_version 2024 3 0 False)
         (Some (example_version 2024 4 0 False))
         (map (get_pr (example_project example_prs))
           (prs_between (example_project example_prs) () ())))
   \<and> has_dependency_label [''new-feature'', ''dependencies'']
   \<and> fst (classify (example_project example_prs) True True False
        (load_prs example_env (example_version 2024 3 0 False)
          (Some (example_version 2024 4 0 False))
          (map (get_pr (example_project example_prs))
            (prs_between (example_project example_prs) () ())))) =
      [''- Fix [esphome#2](url)'']
   \<and> ''- Fix [esphome#1](url) (new-feature)'' \<in> set
        (group_lookup (snd (classify (example_project example_prs) True True False
          (load_prs example_env (example_version 2024 3 0 False)
            (Some (example_version 2024 4 0 False))
            (map (get_pr (example_project example_prs))
              (prs_between (example_project example_prs) () ()))))) ''new-feature'')
   \<and> ''- Fix [esphome#1](url) (new-feature)'' \<in> set
        (depdendency_prs (snd (classify (example_project example_prs) True True False
          (load_prs example_env (example_version 2024 3 0 False)
            (Some (example_version 2024 4 0 False))
            (map (get_pr (example_project example_prs))
              (prs_between (example_project example_prs) () ()))))))
   \<and> generate_outp example_env (example_project example_prs) () (example_version 2024 3 0 False)
        () (Some (example_version 2024 4 0 False)) False True True False =
      Inr [''## Full list of changes\<newline>'', ''### New Features\<newline>'',
        ''- Fix [esphome#1](url) (new-feature)'', '''', ''### All changes\<newline>'',
        ''<details>'', ''<summary>Show</summary>'', '''', ''- Fix [esphome#2](url)'',
        ''</details>'', '''', ''### Dependency Changes\<newline>'', ''<details>'',
        ''<summary>Show</summary>'', '''', ''- Fix [esphome#1](url) (new-feature)'',
        ''</details>'']"
proof -
  let ?entry = "(example_pr 1 [''new-feature'', ''dependencies''] None 20,
    [''new-feature'', ''dependencies''])"
  have h1: "?entry \<in> set (load_prs example_env (example_version 2024 3 0 False)
         (Some (example_version 2024 4 0 False))
         (map (get_pr (example_project example_prs))
           (prs_between (example_project example_prs) () ())))"
    by (simp add: example_lines)
  have h2: "has_dependency_label (snd ?entry)"
    by (simp add: has_dependency_label_iff)
  show ?thesis
    using h1 h2
      dependency_record_classification [OF h1 h2, where markdown = True
        and include_author = False]
    by (simp add: example_lines example_sorted example_msgs has_dependency_label_iff
        example_document_sections)
qed

subsection \<open>Reverted records\<close>

lemma line_msg_shortname:
  "shortname project' = shortname project \<Longrightarrow>
     line_msg project' markdown include_author entry =
     line_msg project markdown include_author entry"
  by (simp add: line_msg_def format_line_def)

lemma serialize_shortname:
  "shortname project' = shortname project \<Longrightarrow>
     serialize project' markdown with_sections include_author lines acc =
     serialize project markdown with_sections include_author lines acc"
proof (induction lines arbitrary: acc)
  case Nil
  then show ?case by simp
next
  case (Cons entry rest)
  then show ?case
    using line_msg_shortname [of project' project markdown include_author entry]
    by (cases acc) (simp add: Let_def)
qed

lemma render_shortname:
  "shortname project' = shortname project \<Longrightarrow>
     render e project' head_version prerelease markdown with_sections include_author lines =
     render e project head_version prerelease markdown with_sections include_author lines"
  using serialize_shortname [of project' project markdown with_sections include_author
      "sorted_lines lines" "([], [])"]
  by (simp add: render_def classify_def)

lemma load_prs_removeAll:
  assumes "snd (job e bv hv (g n)) = None"
  shows "load_prs e bv hv (map g (removeAll n xs)) = load_prs e bv hv (map g xs)"
  using assms by (induction xs) (auto simp: load_prs_Cons split: option.splits)

lemma job_entry:
  assumes "snd (job e bv hv pr) = Some entry"
  shows "fst entry = pr \<and> ''reverted'' \<notin> set (label_names pr)"
  using assms by (auto simp: job_def Let_def split: if_splits option.splits)

lemma load_prs_entries:
  assumes "entry \<in> set (load_prs e bv hv prs)"
  shows "fst entry \<in> set prs \<and> ''reverted'' \<notin> set (label_names (fst entry))"
  using assms
proof (induction prs)
  case Nil
  then show ?case by (simp add: load_prs_def map_filter_def)
next
  case (Cons pr prs)
  show ?case
  proof (cases "snd (job e bv hv pr)")
    case None
    with Cons show ?thesis by (auto simp: load_prs_Cons)
  next
    case (Some first)
    with Cons job_entry [OF Some] show ?thesis by (auto simp: load_prs_Cons)
  qed
qed

text \<open>
  C9. A record that carries \<open>reverted\<close>, whatever its other labels, milestone and the
  versions: the job prints nothing and appends nothing, so no line of the collected
  lines is of this record, and the document is the one \<open>generate\<close> returns when the
  pull-request source does not list the record at all. Hence it is in no label group, not
  in the unified list and not in the dependency section.
\<close>

theorem reverted_record_excluded:
  assumes "''reverted'' \<in> set (label_names pr)"
  shows "job e base_version head_version pr = ([], None)
    \<and> load_prs e base_version head_version (before @ [pr] @ after) =
        load_prs e base_version head_version (before @ after)
    \<and> (\<forall>entry\<in>set (load_prs e base_version head_version prs). fst entry \<noteq> pr)
    \<and> (get_pr project n = pr \<longrightarrow>
         generate e project base base_version head head_version prerelease markdown
           with_sections include_author =
         generate e (project\<lparr>prs_between := \<lambda>b h. removeAll n (prs_between project b h)\<rparr>)
           base base_version head head_version prerelease markdown with_sections include_author)"
proof -
  have j: "job e base_version head_version pr = ([], None)"
    using assms by (simp add: job_def)
  then have l: "load_prs e base_version head_version (before @ [pr] @ after) =
        load_prs e base_version head_version (before @ after)"
    by (simp add: load_prs_append load_prs_Cons)
  have a: "\<forall>entry\<in>set (load_prs e base_version head_version prs). fst entry \<noteq> pr"
    using assms load_prs_entries by blast
  have g: "generate e project base base_version head head_version prerelease markdown
           with_sections include_author =
         generate e (project\<lparr>prs_between := \<lambda>b h. removeAll n (prs_between project b h)\<rparr>)
           base base_version head head_version prerelease markdown with_sections include_author"
    if "get_pr project n = pr"
  proof -
    have "snd (job e base_version head_version (get_pr project n)) = None"
      using that j by simp
    then have "load_prs e base_version head_version
        (map (get_pr project) (removeAll n (prs_between project base head))) =
        load_prs e base_version head_version (map (get_pr project) (prs_between project base head))"
      by (rule load_prs_removeAll)
    moreover have "render e (project\<lparr>prs_between := \<lambda>b h. removeAll n (prs_between project b h)\<rparr>)
        head_version prerelease markdown with_sections include_author
        (load_prs e base_version head_version
          (map (get_pr project) (prs_between project base head))) =
      render e project head_version prerelease markdown with_sections include_author
        (load_prs e base_version head_version
          (map (get_pr project) (prs_between project base head)))"
      by (rule render_shortname) simp
    ultimately show ?thesis
      by (simp add: generate_def generate_outp_render)
  qed
  from j l a g show ?thesis by blast
qed


theorem reverted_record_excluded_witness:
  "''reverted'' \<in> set (label_names
      (example_pr 9 [''new-feature'', ''dependencies'', ''reverted''] None 15))
   \<and> get_pr (example_project
        (example_pr 9 [''new-feature'', ''dependencies'', ''reverted''] None 15 # example_prs)) 9 =
      example_pr 9 [''new-feature'', ''dependencies'', ''reverted''] None 15
   \<and> job example_env (example_version 2024 3 0 False) (Some (example_version 2024 4 0 False))
        (example_pr 9 [''new-feature'', ''dependencies'', ''reverted''] None 15) = ([], None)
   \<and> generate example_env
        (example_project
          (example_pr 9 [''new-feature'', ''dependencies'', ''reverted''] None 15 # example_prs))
        () (example_version 2024 3 0 False) () (Some (example_version 2024 4 0 False))
        False True True False =
      generate example_env
        ((example_project
          (example_pr 9 [''new-feature'', ''dependencies'', ''reverted''] None 15 # example_prs))
         \<lparr>prs_between := \<lambda>b h. removeAll 9
            (prs_between (example_project
              (example_pr 9 [''new-feature'', ''dependencies'', ''reverted''] None 15 #
               example_prs)) b h)\<rparr>)
        () (example_version 2024 3 0 False) () (Some (example_version 2024 4 0 False))
        False True True False"
proof -
  let ?pr = "example_pr 9 [''new-feature'', ''dependencies'', ''reverted''] None 15"
  have h: "''reverted'' \<in> set (label_names ?pr)"
    by (simp add: example_pr_def)
  have n: "get_pr (example_project (?pr # example_prs)) 9 = ?pr"
    by (simp add: example_project_def example_pr_def)
  show ?thesis
    using h n
      reverted_record_excluded [OF h, where project = "example_project (?pr # example_prs)"
        and n = 9 and e = example_env and base_version = "example_version 2024 3 0 False"
        and head_version = "Some (example_version 2024 4 0 False)" and base = "()"
        and head = "()" and prerelease = False and markdown = True and with_sections = True
        and include_author = False]
    by simp
qed

subsection \<open>Cherry-picked records with an unparsable milestone\<close>

lemma has_dependency_label_remove1:
  "has_dependency_label (remove1 ''cherry-picked'' labels) = has_dependency_label labels"
  by (simp add: has_dependency_label_iff)

text \<open>
  C5 (as the code has it). A record that carries \<open>cherry-picked\<close>, does not carry
  \<open>reverted\<close>, and whose milestone text does not parse: the diagnostic
  \<open>Could not parse milestone ...\<close> is printed, the first \<open>cherry-picked\<close> is removed
  from the label list (so the label is gone when the labels are distinct, as the labels
  of a pull request are), and the record is included whatever the versions are. Its
  entry is then not among the entries whose lines make the \<open>cherry-picked\<close> group
  (titled \<open>Beta Changes\<close>), and its line is in the unified list unless section mode is
  enabled and the record carries a dependency label.
\<close>

theorem cherry_picked_unparsable_milestone:
  fixes e :: env and project :: "'b project" and base head :: 'b
    and base_version :: version and head_version :: "version option"
    and markdown with_sections include_author :: bool and pr :: pull_request
  defines "entry \<equiv> (pr, remove1 ''cherry-picked'' (label_names pr))"
  defines "lines \<equiv>
    load_prs e base_version head_version (map (get_pr project) (prs_between project base head))"
  defines "groups \<equiv> snd (classify project markdown with_sections include_author lines)"
  defines "beta_entries \<equiv>
    [other. other \<leftarrow> sorted_lines lines, label \<leftarrow> snd other, label = ''cherry-picked'']"
  assumes "''cherry-picked'' \<in> set (label_names pr)"
    and "''reverted'' \<notin> set (label_names pr)"
    and "milestone pr = Some text"
    and "parse e text = None"
  shows "job e base_version head_version pr =
           ([''Could not parse milestone '' @ text], Some entry)
    \<and> (distinct (label_names pr) \<longrightarrow> ''cherry-picked'' \<notin> set (snd entry))
    \<and> (pr \<in> set (map (get_pr project) (prs_between project base head)) \<longrightarrow>
          entry \<in> set lines
        \<and> ''Could not parse milestone '' @ text \<in> set (printed e base_version head_version
              (map (get_pr project) (prs_between project base head)))
        \<and> group_lookup groups ''cherry-picked'' =
              map (line_msg project markdown include_author) beta_entries
        \<and> (distinct (label_names pr) \<longrightarrow> entry \<notin> set beta_entries)
        \<and> (\<not> with_sections \<or> \<not> has_dependency_label (label_names pr) \<longrightarrow>
              line_msg project markdown include_author entry \<in>
                set (fst (classify project markdown with_sections include_author lines))))"
proof -
  let ?prs = "map (get_pr project) (prs_between project base head)"
  have j: "job e base_version head_version pr =
           ([''Could not parse milestone '' @ text], Some entry)"
    using assms(5-8) by (simp add: job_def entry_def)
  have d: "''cherry-picked'' \<notin> set (snd entry)" if "distinct (label_names pr)"
    using that by (simp add: entry_def)
  have in_lines: "entry \<in> set lines" if "pr \<in> set ?prs"
    using that j by (force simp: lines_def load_prs_def map_filter_def)
  have in_printed: "''Could not parse milestone '' @ text \<in>
      set (printed e base_version head_version ?prs)" if "pr \<in> set ?prs"
    using that j by (force simp: printed_def)
  have grp: "group_lookup groups ''cherry-picked'' =
      map (line_msg project markdown include_author) beta_entries"
    by (simp add: groups_def beta_entries_def classify_groups)
  have not_beta: "entry \<notin> set beta_entries" if "distinct (label_names pr)"
    using d [OF that] by (auto simp: beta_entries_def)
  have unified: "line_msg project markdown include_author entry \<in>
      set (fst (classify project markdown with_sections include_author lines))"
    if "pr \<in> set ?prs" and "\<not> with_sections \<or> \<not> has_dependency_label (label_names pr)"
  proof -
    have "entry \<in> set (sorted_lines lines)"
      using in_lines [OF that(1)] by (simp add: sorted_lines_def)
    moreover have "\<not> with_sections \<or> \<not> has_dependency_label (snd entry)"
      using that(2) by (simp add: entry_def has_dependency_label_remove1)
    ultimately show ?thesis
      by (simp only: classify_changes set_map set_filter) blast
  qed
  from j d in_lines in_printed grp not_beta unified show ?thesis by blast
qed


theorem cherry_picked_unparsable_milestone_witness:
  "''cherry-picked'' \<in> set (label_names (example_pr 21 [''cherry-picked'', ''bugfix''] (Some ''latest'') 30))
   \<and> ''reverted'' \<notin> set (label_names (example_pr 21 [''cherry-picked'', ''bugfix''] (Some ''latest'') 30))
   \<and> milestone (example_pr 21 [''cherry-picked'', ''bugfix''] (Some ''latest'') 30) = Some ''latest''
   \<and> parse example_env ''latest'' = None
   \<and> distinct (label_names (example_pr 21 [''cherry-picked'', ''bugfix''] (Some ''latest'') 30))
   \<and> example_pr 21 [''cherry-picked'', ''bugfix''] (Some ''latest'') 30 \<in> set
        (map (get_pr (example_project
               [example_pr 21 [''cherry-picked'', ''bugfix''] (Some ''latest'') 30]))
          (prs_between (example_project
               [example_pr 21 [''cherry-picked'', ''bugfix''] (Some ''latest'') 30]) () ()))
   \<and> job example_env (example_version 2024 3 0 False) (Some (example_version 2024 4 0 False))
        (example_pr 21 [''cherry-picked'', ''bugfix''] (Some ''latest'') 30) =
      ([''Could not parse milestone latest''],
       Some (example_pr 21 [''cherry-picked'', ''bugfix''] (Some ''latest'') 30, [''bugfix'']))
   \<and> group_lookup (snd (classify
        (example_project [example_pr 21 [''cherry-picked'', ''bugfix''] (Some ''latest'') 30])
        True True False
        (load_prs example_env (example_version 2024 3 0 False)
          (Some (example_version 2024 4 0 False))
          (map (get_pr (example_project
                 [example_pr 21 [''cherry-picked'', ''bugfix''] (Some ''latest'') 30]))
            (prs_between (example_project
                 [example_pr 21 [''cherry-picked'', ''bugfix''] (Some ''latest'') 30]) () ())))))
        ''cherry-picked'' = []
   \<and> fst (classify
        (example_project [example_pr 21 [''cherry-picked'', ''bugfix''] (Some ''latest'') 30])
        True True False
        (load_prs example_env (example_version 2024 3 0 False)
          (Some (example_version 2024 4 0 False))
          (map (get_pr (example_project
                 [example_pr 21 [''cherry-picked'', ''bugfix''] (Some ''latest'') 30]))
            (prs_between (example_project
                 [example_pr 21 [''cherry-picked'', ''bugfix''] (Some ''latest'') 30]) () ())))) =
      [''- Fix [esphome#21](url)'']"
proof -
  let ?pr = "example_pr 21 [''cherry-picked'', ''bugfix''] (Some ''latest'') 30"
  have h1: "''cherry-picked'' \<in> set (label_names ?pr)" by (simp add: example_pr_def)
  have h2: "''reverted'' \<notin> set (label_names ?pr)" by (simp add: example_pr_def)
  have h3: "milestone ?pr = Some ''latest''" by (simp add: example_pr_def)
  have h4: "parse example_env ''latest'' = None"
    by (simp add: example_env_def example_parse_def)
  have h5: "distinct (label_names ?pr)" by (simp add: example_pr_def)
  have h6: "?pr \<in> set (map (get_pr (example_project [?pr]))
      (prs_between (example_project [?pr]) () ()))"
    by (simp add: example_project_def)
  have l: "load_prs example_env (example_version 2024 3 0 False)
      (Some (example_version 2024 4 0 False))
      (map (get_pr (example_project [?pr])) (prs_between (example_project [?pr]) () ())) =
      [(?pr, [''bugfix''])]"
    by (simp add: example_project_def load_prs_Cons load_prs_def map_filter_def job_def Let_def
        example_pr_def example_env_def example_parse_def)
  have s: "sorted_lines [(?pr, [''bugfix''])] = [(?pr, [''bugfix''])]"
    by (simp add: sorted_lines_def)
  have m: "line_msg (example_project [?pr]) True False (?pr, [''bugfix'']) =
      ''- Fix [esphome#21](url)''"
    by (simp add: line_msg_def LINE_LABELS_def format_line_def example_project_def
        example_pr_def example_user_def str_int_def str_nat.simps digit_char_def)
  have r: "remove1 ''cherry-picked'' (label_names ?pr) = [''bugfix'']"
    by (simp add: example_pr_def)
  show ?thesis
    using h1 h2 h3 h4 h5 h6
      cherry_picked_unparsable_milestone [OF h1 h2 h3 h4, where project = "example_project [?pr]"
        and base = "()" and head = "()" and base_version = "example_version 2024 3 0 False"
        and head_version = "Some (example_version 2024 4 0 False)" and markdown = True
        and with_sections = True and include_author = False]
    by (simp add: l s m r has_dependency_label_iff classify_changes)
qed

text \<open>
  C5 as stated fails on a record that carries \<open>reverted\<close> beside \<open>cherry-picked\<close>
  (left out, nothing printed), and on a record that carries \<open>dependencies\<close> beside
  \<open>cherry-picked\<close> in section mode (included, but not in the unified list).
\<close>

theorem unparsable_milestone_counterexample:
  "''cherry-picked'' \<in> set (label_names
      (example_pr 22 [''reverted'', ''cherry-picked''] (Some ''latest'') 30))
   \<and> milestone (example_pr 22 [''reverted'', ''cherry-picked''] (Some ''latest'') 30) = Some ''latest''
   \<and> parse example_env ''latest'' = None
   \<and> job example_env (example_version 2024 3 0 False) (Some (example_version 2024 4 0 False))
        (example_pr 22 [''reverted'', ''cherry-picked''] (Some ''latest'') 30) = ([], None)
   \<and> ''cherry-picked'' \<in> set (label_names
      (example_pr 23 [''cherry-picked'', ''dependencies''] (Some ''latest'') 30))
   \<and> milestone (example_pr 23 [''cherry-picked'', ''dependencies''] (Some ''latest'') 30) =
       Some ''latest''
   \<and> load_prs example_env (example_version 2024 3 0 False)
        (Some (example_version 2024 4 0 False))
        [example_pr 23 [''cherry-picked'', ''dependencies''] (Some ''latest'') 30] =
      [(example_pr 23 [''cherry-picked'', ''dependencies''] (Some ''latest'') 30,
        [''dependencies''])]
   \<and> fst (classify (example_project []) True True False
        [(example_pr 23 [''cherry-picked'', ''dependencies''] (Some ''latest'') 30,
          [''dependencies''])]) = []"
  by (simp add: job_def load_prs_Cons load_prs_def map_filter_def Let_def example_pr_def
      example_env_def example_parse_def classify_changes has_dependency_label_iff
      sorted_lines_def)

end
